theory Spec2Isabelle
  imports Complex_Main
begin

section \<open>Data model of the operations console (App.tsx)\<close>

text \<open>
  The console keeps its data in plain objects. Numbers of the source are IEEE doubles; they
  are modelled by exact rationals, so rounding error of the floating-point operations is not
  part of the model. A timestamp of the source is an ISO-8601 string that is always read
  through \<^verbatim>\<open>new Date(s).getTime()\<close>; it is modelled by the epoch milliseconds it
  denotes (an \<open>int\<close>), under the convention that the server writes each instant in one
  canonical spelling, so that equality of the strings is equality of the instants.
  An optional field is an \<open>option\<close>; \<open>None\<close> stands for every falsy content
  (missing, \<^verbatim>\<open>undefined\<close>, the empty string) where the source tests truthiness.
\<close>

record Train =
  id_train :: string
  type_train :: "string option"
  priority :: "rat option"
  scheduled_arrival :: "int option"
  scheduled_departure :: "int option"
  origin :: "string option"
  destination :: "string option"
  platform_pref :: "int option"

record ScheduleEntry =
  train_id :: string
  station_id :: string
  assigned_platform :: int
  actual_arrival :: int
  actual_departure :: int
  reason :: "string option"

record Station =
  id_station :: string
  platforms :: nat
  latitude :: "rat option"
  longitude :: "rat option"

text \<open>\<^verbatim>\<open>getTrain\<close>: \<^verbatim>\<open>trains.find((t) => t.id === id)\<close>.\<close>

definition getTrain :: "Train list \<Rightarrow> string \<Rightarrow> Train option" where
  "getTrain trains i = find (\<lambda>t. id_train t = i) trains"

text \<open>
  \<^verbatim>\<open>isDelayed\<close> (lines 102-108): false when the train is unknown or has no scheduled
  arrival, otherwise whether the actual arrival is more than two minutes late.
\<close>

definition isDelayed :: "Train list \<Rightarrow> ScheduleEntry \<Rightarrow> bool" where
  "isDelayed trains entry =
     (case getTrain trains (train_id entry) of
        None \<Rightarrow> False
      | Some t \<Rightarrow>
          (case scheduled_arrival t of
             None \<Rightarrow> False
           | Some scheduled \<Rightarrow> actual_arrival entry - scheduled > 2 * 60 * 1000))"

section \<open>Gantt bar placement (GanttChart, lines 1400-1450)\<close>

record TimeWindow =
  wmin :: rat
  wmax :: rat

text \<open>
  A quotient of the source is an IEEE double: dividing by zero does not fail, it gives an
  infinity or \<^verbatim>\<open>NaN\<close>, which then reaches the style attribute. The result of a
  division is therefore a value of its own type, in which a division by zero shows.
  \<^verbatim>\<open>Math.max\<close> returns \<^verbatim>\<open>NaN\<close> on \<^verbatim>\<open>NaN\<close>.
\<close>

datatype JsNumber = Finite rat | PosInfinity | NegInfinity | NaN

definition js_divide :: "rat \<Rightarrow> rat \<Rightarrow> JsNumber" where
  "js_divide a b =
     (if b \<noteq> 0 then Finite (a / b)
      else if 0 < a then PosInfinity
      else if a < 0 then NegInfinity
      else NaN)"

text \<open>\<^verbatim>\<open>x * 100\<close>\<close>

definition js_percent :: "JsNumber \<Rightarrow> JsNumber" where
  "js_percent x = (case x of Finite v \<Rightarrow> Finite (v * 100) | other \<Rightarrow> other)"

text \<open>\<^verbatim>\<open>Math.max(c, x)\<close> for a finite \<open>c\<close>\<close>

definition js_max :: "rat \<Rightarrow> JsNumber \<Rightarrow> JsNumber" where
  "js_max c x =
     (case x of
        Finite v \<Rightarrow> Finite (max c v)
      | PosInfinity \<Rightarrow> PosInfinity
      | NegInfinity \<Rightarrow> Finite c
      | NaN \<Rightarrow> NaN)"

record Bar =
  leftPct :: JsNumber
  widthPct :: JsNumber

text \<open>
  \<^verbatim>\<open>const span = Math.max(1, timeWindow.max - timeWindow.min)\<close> (line 1400); the
  placement of a bar (lines 1447-1450) divides by it.
\<close>

definition spanOf :: "TimeWindow \<Rightarrow> rat" where
  "spanOf w = max 1 (wmax w - wmin w)"

definition placeBar :: "TimeWindow \<Rightarrow> ScheduleEntry \<Rightarrow> Bar" where
  "placeBar w e =
     (let start = of_int (actual_arrival e);
          endt = of_int (actual_departure e)
      in \<lparr> leftPct = js_max 0 (js_percent (js_divide (start - wmin w) (spanOf w))),
           widthPct = js_max (1 / 2) (js_percent (js_divide (endt - start) (spanOf w))) \<rparr>)"

section \<open>KPI computation (computeKPIs, lines 970-993)\<close>

text \<open>
  The field \<^verbatim>\<open>avgDelay\<close> is the number \<^verbatim>\<open>0\<close> for an empty schedule and the
  string \<^verbatim>\<open>(sumDelay / total).toFixed(1)\<close> otherwise. The string is represented by
  the integer number of tenths it spells: \<open>AvgFixed1 n\<close> is the decimal spelling of
  \<open>n / 10\<close> with one fractional digit.
\<close>

datatype AvgDelay = AvgNumber rat | AvgFixed1 int

record KPIs =
  total :: nat
  ontimePct :: int
  avgDelay :: AvgDelay

text \<open>\<^verbatim>\<open>Math.round\<close> rounds to the nearest integer, ties towards \<open>+\<infinity>\<close>.\<close>

definition math_round :: "rat \<Rightarrow> int" where
  "math_round x = \<lfloor>x + 1 / 2\<rfloor>"

text \<open>\<^verbatim>\<open>x.toFixed(1)\<close> for \<open>x \<ge> 0\<close>: the nearest number of tenths, ties upwards.\<close>

definition toFixed1 :: "rat \<Rightarrow> int" where
  "toFixed1 x = \<lfloor>x * 10 + 1 / 2\<rfloor>"

text \<open>The delay in minutes of an entry against a scheduled arrival, never negative.\<close>

definition delayMinutes :: "int \<Rightarrow> ScheduleEntry \<Rightarrow> rat" where
  "delayMinutes scheduledArrival s =
     max 0 (of_int (actual_arrival s - scheduledArrival) / 60000)"

text \<open>
  The body of the \<^verbatim>\<open>forEach\<close>: the accumulator is the pair
  \<open>(ontime, sumDelay)\<close>; an entry whose train is unknown or has no scheduled arrival
  is skipped.
\<close>

definition kpiStep :: "Train list \<Rightarrow> ScheduleEntry \<Rightarrow> nat \<times> rat \<Rightarrow> nat \<times> rat" where
  "kpiStep trains s acc =
     (case find (\<lambda>t. id_train t = train_id s) trains of
        None \<Rightarrow> acc
      | Some train \<Rightarrow>
          (case scheduled_arrival train of
             None \<Rightarrow> acc
           | Some sa \<Rightarrow>
               (let delay = delayMinutes sa s
                in (if delay \<le> 2 then fst acc + 1 else fst acc, snd acc + delay))))"

definition computeKPIs :: "Train list \<Rightarrow> ScheduleEntry list \<Rightarrow> KPIs" where
  "computeKPIs trains sch =
     (if sch = [] then \<lparr> total = 0, ontimePct = 0, avgDelay = AvgNumber 0 \<rparr>
      else
        (let n = length sch;
             acc = fold (kpiStep trains) sch (0, 0)
         in \<lparr> total = n,
              ontimePct = math_round ((of_nat (fst acc) / of_nat n) * 100),
              avgDelay = AvgFixed1 (toFixed1 (snd acc / of_nat n)) \<rparr>))"

text \<open>
  The scheduled arrival that the KPI loop uses for an entry, when there is one; an
  entry counts for the KPIs exactly when this is defined.
\<close>

definition kpiScheduled :: "Train list \<Rightarrow> ScheduleEntry \<Rightarrow> int option" where
  "kpiScheduled trains s =
     (case find (\<lambda>t. id_train t = train_id s) trains of
        None \<Rightarrow> None
      | Some train \<Rightarrow> scheduled_arrival train)"

definition kpiDelay :: "Train list \<Rightarrow> ScheduleEntry \<Rightarrow> rat" where
  "kpiDelay trains s =
     (case kpiScheduled trains s of None \<Rightarrow> 0 | Some sa \<Rightarrow> delayMinutes sa s)"

definition kpiOntime :: "Train list \<Rightarrow> ScheduleEntry \<Rightarrow> bool" where
  "kpiOntime trains s =
     (case kpiScheduled trains s of None \<Rightarrow> False | Some sa \<Rightarrow> delayMinutes sa s \<le> 2)"

section \<open>Changed-train diff (lines 1964-1975)\<close>

text \<open>
  \<^verbatim>\<open>changedTrains\<close> is a JavaScript \<^verbatim>\<open>Set\<close>, which keeps insertion order:
  it is a list without repetition. The counterpart of an entry is the first entry of
  \<^verbatim>\<open>beforeEntries\<close> with the same train id. The loop below is lines 1964-1975 alone;
  the list \<^verbatim>\<open>beforeEntries\<close> that the program hands to it is built further down,
  with the comparison panel.
\<close>

definition differs :: "ScheduleEntry \<Rightarrow> ScheduleEntry \<Rightarrow> bool" where
  "differs before after \<longleftrightarrow>
     assigned_platform before \<noteq> assigned_platform after \<or>
     actual_arrival before \<noteq> actual_arrival after \<or>
     actual_departure before \<noteq> actual_departure after"

definition set_add :: "string \<Rightarrow> string list \<Rightarrow> string list" where
  "set_add x xs = (if x \<in> set xs then xs else xs @ [x])"

definition diffStep :: "ScheduleEntry list \<Rightarrow> ScheduleEntry \<Rightarrow> string list \<Rightarrow> string list" where
  "diffStep beforeEntries after changed =
     (case find (\<lambda>b. train_id b = train_id after) beforeEntries of
        None \<Rightarrow> changed
      | Some before \<Rightarrow>
          (if differs before after then set_add (train_id after) changed else changed))"

definition changedTrains :: "ScheduleEntry list \<Rightarrow> ScheduleEntry list \<Rightarrow> string list" where
  "changedTrains beforeEntries afterEntries = fold (diffStep beforeEntries) afterEntries []"

section \<open>Reconciliation store (fetchSchedule, lines 732-770; resetSystem, lines 951-967)\<close>

text \<open>
  The three snapshots are React state. A state setter writes the store; a read of
  \<^verbatim>\<open>schedule\<close> or \<^verbatim>\<open>baselineSchedule\<close> inside \<^verbatim>\<open>fetchSchedule\<close> reads the
  constant that the function instance captured from the render that created it. The
  captured values are therefore arguments of the model, separate from the store that the
  setters update.
\<close>

record Store =
  schedule :: "ScheduleEntry list"
  baselineSchedule :: "ScheduleEntry list"
  previousSchedule :: "ScheduleEntry list"
  delaysBefore :: "rat list"
  delaysAfter :: "rat list"
  loading :: bool

text \<open>
  What a \<^verbatim>\<open>fetch\<close> can come to: the promise rejects (server unreachable), the status
  is not OK, the body cannot be used (\<^verbatim>\<open>response.json()\<close> rejects, or the value is
  such that the first access to it throws), or a body is delivered.
\<close>

datatype 'a Reply = Rejected | Status_not_ok | Body_unusable | Ok_body 'a

text \<open>
  The body of \<^verbatim>\<open>GET /schedule\<close>. A body without a \<^verbatim>\<open>schedule\<close> array makes
  \<^verbatim>\<open>[...data.schedule]\<close> throw, after the promotion step has already run.
\<close>

record ScheduleResponse =
  resp_schedule :: "ScheduleEntry list option"
  delays_before_min :: "rat list option"
  delays_after_min :: "rat list option"

definition or_empty :: "'a list option \<Rightarrow> 'a list" where
  "or_empty v = (case v of None \<Rightarrow> [] | Some xs \<Rightarrow> xs)"

text \<open>
  Lines 739-746. \<^verbatim>\<open>JSON.stringify(schedule) !== JSON.stringify(data.schedule)\<close> is
  modelled by inequality of the snapshots.
\<close>

definition promote :: "ScheduleEntry list \<Rightarrow> ScheduleEntry list \<Rightarrow> ScheduleResponse \<Rightarrow> Store \<Rightarrow> Store" where
  "promote seenSchedule seenBaseline data st =
     (if seenSchedule \<noteq> [] \<and> seenBaseline = [] then st\<lparr>baselineSchedule := seenSchedule\<rparr>
      else if seenSchedule \<noteq> [] \<and> Some seenSchedule \<noteq> resp_schedule data
           then st\<lparr>previousSchedule := seenSchedule\<rparr>
      else st)"

text \<open>Lines 753-764: the follow-up \<^verbatim>\<open>GET /baseline\<close>; every failure is swallowed.\<close>

definition fetchBaseline :: "ScheduleEntry list \<Rightarrow> ScheduleEntry list Reply \<Rightarrow> Store \<Rightarrow> Store" where
  "fetchBaseline seenBaseline baselineReply st =
     (if seenBaseline = [] then
        (case baselineReply of
           Ok_body baselineData \<Rightarrow> st\<lparr>baselineSchedule := baselineData\<rparr>
         | _ \<Rightarrow> st)
      else st)"

definition fetchSchedule ::
  "ScheduleEntry list \<Rightarrow> ScheduleEntry list \<Rightarrow> ScheduleResponse Reply \<Rightarrow> ScheduleEntry list Reply
     \<Rightarrow> Store \<Rightarrow> Store" where
  "fetchSchedule seenSchedule seenBaseline scheduleReply baselineReply st =
     (let st1 = st\<lparr>loading := True\<rparr>;
          st5 =
            (case scheduleReply of
               Ok_body data \<Rightarrow>
                 (let st2 = promote seenSchedule seenBaseline data st1
                  in (case resp_schedule data of
                        None \<Rightarrow> st2
                      | Some new \<Rightarrow>
                          fetchBaseline seenBaseline baselineReply
                            (st2\<lparr>schedule := new,
                                 delaysBefore := or_empty (delays_before_min data),
                                 delaysAfter := or_empty (delays_after_min data)\<rparr>)))
             | _ \<Rightarrow> st1)
      in st5\<lparr>loading := False\<rparr>)"

text \<open>
  A call from a handler of the latest render (the Refresh button, the commit of an
  override) sees the store as it is.
\<close>

definition ingest :: "ScheduleResponse Reply \<Rightarrow> ScheduleEntry list Reply \<Rightarrow> Store \<Rightarrow> Store" where
  "ingest scheduleReply baselineReply st =
     fetchSchedule (schedule st) (baselineSchedule st) scheduleReply baselineReply st"

text \<open>
  The routine poll (lines 673-693): \<^verbatim>\<open>setInterval\<close> is installed by an effect with the
  empty dependency list, which runs once, after the first render. Its callback calls the
  \<^verbatim>\<open>fetchSchedule\<close> of that render, in which \<^verbatim>\<open>schedule\<close> and
  \<^verbatim>\<open>baselineSchedule\<close> are the initial \<^verbatim>\<open>useState([])\<close> values (lines 65-66),
  whatever the store holds by now.
\<close>

definition pollTick :: "ScheduleResponse Reply \<Rightarrow> ScheduleEntry list Reply \<Rightarrow> Store \<Rightarrow> Store" where
  "pollTick scheduleReply baselineReply st = fetchSchedule [] [] scheduleReply baselineReply st"

text \<open>
  \<^verbatim>\<open>resetSystem\<close>: nothing happens unless \<^verbatim>\<open>POST /reset\<close> answers OK; then the
  three snapshots are cleared and \<^verbatim>\<open>fetchSchedule\<close> of the same render runs. The
  refresh of the audit log that follows does not touch the store.
\<close>

definition resetSystem ::
  "ScheduleEntry list \<Rightarrow> ScheduleEntry list \<Rightarrow> unit Reply \<Rightarrow> ScheduleResponse Reply
     \<Rightarrow> ScheduleEntry list Reply \<Rightarrow> Store \<Rightarrow> Store" where
  "resetSystem seenSchedule seenBaseline resetReply scheduleReply baselineReply st =
     (case resetReply of
        Rejected \<Rightarrow> st
      | Status_not_ok \<Rightarrow> st
      | _ \<Rightarrow>
          fetchSchedule seenSchedule seenBaseline scheduleReply baselineReply
            (st\<lparr>baselineSchedule := [], previousSchedule := [], schedule := []\<rparr>))"

section \<open>Before/after comparison (lines 1881-1975)\<close>

text \<open>
  \<^verbatim>\<open>baseBefore\<close> (lines 1883-1894): the baseline, else the previous snapshot, else one
  entry for each loaded train from its scheduled times. \<^verbatim>\<open>new Date().toISOString()\<close>
  is the argument \<open>nowMs\<close>.
\<close>

definition initialEntry :: "int \<Rightarrow> Train \<Rightarrow> ScheduleEntry" where
  "initialEntry nowMs t =
     \<lparr> train_id = id_train t,
       station_id = (case origin t of None \<Rightarrow> [] | Some s \<Rightarrow> s),
       assigned_platform = (case platform_pref t of None \<Rightarrow> 1 | Some q \<Rightarrow> if q = 0 then 1 else q),
       actual_arrival = (case scheduled_arrival t of None \<Rightarrow> nowMs | Some a \<Rightarrow> a),
       actual_departure =
         (case scheduled_departure t of
            Some d \<Rightarrow> d
          | None \<Rightarrow> (case scheduled_arrival t of None \<Rightarrow> nowMs | Some a \<Rightarrow> a)),
       reason = Some ''initial schedule'' \<rparr>"

definition baseBefore :: "Train list \<Rightarrow> int \<Rightarrow> Store \<Rightarrow> ScheduleEntry list" where
  "baseBefore trains nowMs st =
     (if baselineSchedule st \<noteq> [] then baselineSchedule st
      else if previousSchedule st \<noteq> [] then previousSchedule st
      else map (initialEntry nowMs) trains)"

text \<open>
  \<^verbatim>\<open>byId[k] = v\<close> on an object with string keys: an existing key keeps its place and
  takes the new value, a new key goes to the end; \<^verbatim>\<open>Object.values\<close> lists the values
  in that order (for keys that are not spelled as array indices).
\<close>

fun put :: "string \<Rightarrow> ScheduleEntry \<Rightarrow> (string \<times> ScheduleEntry) list \<Rightarrow> (string \<times> ScheduleEntry) list" where
  "put k v [] = [(k, v)]"
| "put k v ((k', v') # al) = (if k' = k then (k, v) # al else (k', v') # put k v al)"

text \<open>
  The synthetic entries of lines 1905-1912 and 1918-1925. The default times are written
  without a zone in the source and are read in local time: \<open>zone\<close> is the offset of
  local time from UTC in milliseconds.
\<close>

definition forcedT104 :: "int \<Rightarrow> Train \<Rightarrow> ScheduleEntry" where
  "forcedT104 zone t =
     \<lparr> train_id = ''T104'',
       station_id = (case origin t of None \<Rightarrow> ''HYB'' | Some s \<Rightarrow> s),
       assigned_platform = 1,
       actual_arrival = (case scheduled_arrival t of None \<Rightarrow> 1758531900000 - zone | Some a \<Rightarrow> a),
       actual_departure = (case scheduled_departure t of None \<Rightarrow> 1758533400000 - zone | Some d \<Rightarrow> d),
       reason = Some ''pre-optimization conflict baseline'' \<rparr>"

definition forcedT106 :: "int \<Rightarrow> Train \<Rightarrow> ScheduleEntry" where
  "forcedT106 zone t =
     \<lparr> train_id = ''T106'',
       station_id = (case origin t of None \<Rightarrow> ''HYB'' | Some s \<Rightarrow> s),
       assigned_platform = 1,
       actual_arrival = (case scheduled_arrival t of None \<Rightarrow> 1758532320000 - zone | Some a \<Rightarrow> a),
       actual_departure = (case scheduled_departure t of None \<Rightarrow> 1758532920000 - zone | Some d \<Rightarrow> d),
       reason = Some ''pre-optimization conflict baseline'' \<rparr>"

text \<open>\<^verbatim>\<open>beforeEntries\<close> (lines 1898-1931).\<close>

definition beforeEntries :: "int \<Rightarrow> Train list \<Rightarrow> ScheduleEntry list \<Rightarrow> ScheduleEntry list" where
  "beforeEntries zone trains base =
     (let byId0 = fold (\<lambda>e. put (train_id e) e) base [];
          byId1 = (case getTrain trains ''T104'' of
                     None \<Rightarrow> byId0
                   | Some t104Train \<Rightarrow> put ''T104'' (forcedT104 zone t104Train) byId0);
          byId2 = (case getTrain trains ''T106'' of
                     None \<Rightarrow> byId1
                   | Some t106Train \<Rightarrow> put ''T106'' (forcedT106 zone t106Train) byId1)
      in map snd byId2)"

text \<open>\<^verbatim>\<open>afterEntries\<close> (line 1933).\<close>

definition afterEntries :: "Store \<Rightarrow> ScheduleEntry list \<Rightarrow> ScheduleEntry list" where
  "afterEntries st base = (if schedule st \<noteq> [] then schedule st else base)"

text \<open>
  The diff as the program runs it on a snapshot before and a snapshot after: the
  before-list is rebuilt first, then the loop of lines 1964-1975 runs.
\<close>

definition snapshotDiff ::
  "int \<Rightarrow> Train list \<Rightarrow> ScheduleEntry list \<Rightarrow> ScheduleEntry list \<Rightarrow> string list" where
  "snapshotDiff zone trains before after = changedTrains (beforeEntries zone trains before) after"

text \<open>The changed trains that the comparison panel shows for a store.\<close>

definition comparisonChanged :: "int \<Rightarrow> Train list \<Rightarrow> int \<Rightarrow> Store \<Rightarrow> string list" where
  "comparisonChanged zone trains nowMs st =
     (let base = baseBefore trains nowMs st
      in snapshotDiff zone trains base (afterEntries st base))"

section \<open>Override impact estimator (calculateDelayImpact, lines 1059-1117)\<close>

record Impact =
  current :: rat
  predicted :: rat
  difference :: rat

text \<open>The \<^verbatim>\<open>target_train_impact\<close> object of a simulation body.\<close>

record TargetTrainImpact =
  current_delay :: rat
  predicted_delay :: rat
  delay_change :: rat

text \<open>
  The body of \<^verbatim>\<open>POST /simulate-override\<close> is the \<^verbatim>\<open>target_train_impact\<close> it
  carries, \<open>None\<close> when the field is missing or falsy. The function returns
  \<^verbatim>\<open>null\<close> (\<open>None\<close>) from its guard and from its \<^verbatim>\<open>catch\<close> block, which a
  rejected \<^verbatim>\<open>fetch\<close> and an unusable body reach.
\<close>

definition conflictingTrains :: "ScheduleEntry list \<Rightarrow> ScheduleEntry \<Rightarrow> string \<Rightarrow> int \<Rightarrow> ScheduleEntry list" where
  "conflictingTrains sch currentEntry trainId newPlatform =
     filter (\<lambda>s. station_id s = station_id currentEntry \<and>
                 assigned_platform s = newPlatform \<and>
                 train_id s \<noteq> trainId) sch"

definition calculateDelayImpact ::
  "Train list \<Rightarrow> ScheduleEntry list \<Rightarrow> string \<Rightarrow> int \<Rightarrow> TargetTrainImpact option Reply
     \<Rightarrow> Impact option" where
  "calculateDelayImpact trains sch trainId newPlatform simReply =
     (case find (\<lambda>s. train_id s = trainId) sch of
        None \<Rightarrow> None
      | Some currentEntry \<Rightarrow>
          (case getTrain trains trainId of
             None \<Rightarrow> None
           | Some train \<Rightarrow>
               (case scheduled_arrival train of
                  None \<Rightarrow> None
                | Some scheduledTime \<Rightarrow>
                    (let currentDelay =
                           max 0 (of_int (actual_arrival currentEntry - scheduledTime) / (60 * 1000));
                         estimatedAdditionalDelay =
                           of_nat (length (conflictingTrains sch currentEntry trainId newPlatform)) * 3;
                         fallback = Some \<lparr> current = currentDelay,
                                           predicted = currentDelay + estimatedAdditionalDelay,
                                           difference = estimatedAdditionalDelay \<rparr>
                     in (case simReply of
                           Rejected \<Rightarrow> None
                         | Body_unusable \<Rightarrow> None
                         | Status_not_ok \<Rightarrow> fallback
                         | Ok_body None \<Rightarrow> fallback
                         | Ok_body (Some imp) \<Rightarrow>
                             Some \<lparr> current = current_delay imp,
                                    predicted = predicted_delay imp,
                                    difference = delay_change imp \<rparr>)))))"

text \<open>
  Occupancy overlap of two entries, as the specification words it; the source has no
  such test. It is used only to compare the estimator with the specification.
\<close>

definition spec_overlap :: "ScheduleEntry \<Rightarrow> ScheduleEntry \<Rightarrow> bool" where
  "spec_overlap a b \<longleftrightarrow>
     actual_arrival a \<le> actual_departure b \<and> actual_arrival b \<le> actual_departure a"

text \<open>
  The additional delay as the specification words it: 3 minutes for each other entry at
  the same station and platform whose occupancy overlaps.
\<close>

definition spec_additionalDelay :: "ScheduleEntry list \<Rightarrow> ScheduleEntry \<Rightarrow> string \<Rightarrow> int \<Rightarrow> rat" where
  "spec_additionalDelay sch currentEntry trainId newPlatform =
     3 * of_nat (length (filter (\<lambda>s. station_id s = station_id currentEntry \<and>
                                        assigned_platform s = newPlatform \<and>
                                        train_id s \<noteq> trainId \<and>
                                        spec_overlap currentEntry s) sch))"

section \<open>Position interpolator (GeoMap, lines 158-384)\<close>

text \<open>
  A coordinate is a JavaScript number that can be \<^verbatim>\<open>NaN\<close> (a station without
  latitude enters \<^verbatim>\<open>Math.min\<close>): \<open>None\<close> is \<^verbatim>\<open>NaN\<close>. The source calls
  \<^verbatim>\<open>Math.random()\<close>; the model takes the sequence of its results as an argument
  \<open>rnd\<close>, with a counter \<open>k\<close> of the draws made so far.
\<close>

record Node =
  id_node :: string
  node_x :: "rat option"
  node_y :: "rat option"
  node_platforms :: "nat option"

text \<open>The routes table (lines 173-177); colour, distance and capacity are display only.\<close>

record Route =
  from_route :: string
  to_route :: string
  tracks :: nat

definition routes :: "Route list" where
  "routes =
     [\<lparr> from_route = ''HYB'', to_route = ''SC'', tracks = 2 \<rparr>,
      \<lparr> from_route = ''SC'', to_route = ''KCG'', tracks = 1 \<rparr>,
      \<lparr> from_route = ''HYB'', to_route = ''KCG'', tracks = 2 \<rparr>]"

text \<open>\<^verbatim>\<open>stationPositions\<close> (lines 202-206): x, y and platforms of the known stations.\<close>

definition stationPositions :: "string \<Rightarrow> (rat \<times> rat \<times> nat) option" where
  "stationPositions i =
     (if i = ''HYB'' then Some (200, 160, 4)
      else if i = ''SC'' then Some (500, 100, 6)
      else if i = ''KCG'' then Some (350, 220, 3)
      else None)"

definition width :: rat where "width = 1000"
definition height :: rat where "height = 320"
definition padding :: rat where "padding = 40"

definition hasGeo :: "Station list \<Rightarrow> bool" where
  "hasGeo stations = list_ex (\<lambda>s. latitude s \<noteq> None \<and> longitude s \<noteq> None) stations"

text \<open>
  \<^verbatim>\<open>Math.min(...vs)\<close> and \<^verbatim>\<open>Math.max(...vs)\<close>: \<^verbatim>\<open>NaN\<close> as soon as one
  argument is not a number. The empty case does not occur where they are called.
\<close>

fun all_numbers :: "rat option list \<Rightarrow> rat list option" where
  "all_numbers [] = Some []"
| "all_numbers (None # vs) = None"
| "all_numbers (Some v # vs) = map_option (\<lambda>ws. v # ws) (all_numbers vs)"

definition math_min :: "rat option list \<Rightarrow> rat option" where
  "math_min vs =
     (case all_numbers vs of None \<Rightarrow> None | Some [] \<Rightarrow> None | Some (w # ws) \<Rightarrow> Some (fold min ws w))"

definition math_max :: "rat option list \<Rightarrow> rat option" where
  "math_max vs =
     (case all_numbers vs of None \<Rightarrow> None | Some [] \<Rightarrow> None | Some (w # ws) \<Rightarrow> Some (fold max ws w))"

text \<open>
  \<^verbatim>\<open>sx\<close> and \<^verbatim>\<open>sy\<close> (lines 216-217) share the scaling
  \<open>(v - lo) / max 1e-6 (hi - lo)\<close>, \<^verbatim>\<open>NaN\<close> when an operand is.
\<close>

definition scale01 :: "rat option \<Rightarrow> rat option \<Rightarrow> rat option \<Rightarrow> rat option" where
  "scale01 lo hi v =
     (case (lo, hi, v) of
        (Some l, Some h, Some u) \<Rightarrow> Some ((u - l) / max (1 / 1000000) (h - l))
      | _ \<Rightarrow> None)"

definition geoNodes :: "Station list \<Rightarrow> Node list" where
  "geoNodes stations =
     (let lats = map latitude stations;
          lons = map longitude stations;
          minLat = math_min lats; maxLat = math_max lats;
          minLon = math_min lons; maxLon = math_max lons;
          sx = (\<lambda>lon. map_option (\<lambda>q. padding + q * (width - 2 * padding))
                         (scale01 minLon maxLon lon));
          sy = (\<lambda>lat. map_option (\<lambda>q. padding + (1 - q) * (height - 2 * padding))
                         (scale01 minLat maxLat lat))
      in map (\<lambda>st. \<lparr> id_node = id_station st, node_x = sx (longitude st),
                      node_y = sy (latitude st), node_platforms = None \<rparr>) stations)"

text \<open>
  Lines 220-227: a station of the table takes the table's position; any other station
  takes two draws of \<^verbatim>\<open>Math.random()\<close>.
\<close>

fun tableNodes :: "(nat \<Rightarrow> rat) \<Rightarrow> nat \<Rightarrow> Station list \<Rightarrow> Node list" where
  "tableNodes rnd k [] = []"
| "tableNodes rnd k (st # sts) =
     (case stationPositions (id_station st) of
        Some (px, py, pp) \<Rightarrow>
          \<lparr> id_node = id_station st, node_x = Some px, node_y = Some py,
            node_platforms = Some pp \<rparr> # tableNodes rnd k sts
      | None \<Rightarrow>
          \<lparr> id_node = id_station st,
            node_x = Some (padding + rnd k * (width - 2 * padding)),
            node_y = Some (padding + rnd (k + 1) * (height - 2 * padding)),
            node_platforms = Some (if platforms st = 0 then 2 else platforms st) \<rparr>
          # tableNodes rnd (k + 2) sts)"

definition nodes :: "(nat \<Rightarrow> rat) \<Rightarrow> Station list \<Rightarrow> Node list" where
  "nodes rnd stations = (if hasGeo stations then geoNodes stations else tableNodes rnd 0 stations)"

definition nodeFor :: "Node list \<Rightarrow> string \<Rightarrow> Node option" where
  "nodeFor ns i = find (\<lambda>n. id_node n = i) ns"

text \<open>
  \<^verbatim>\<open>trainSegments\<close> (lines 233-243): the entries of each train, sorted by arrival;
  \<^verbatim>\<open>Array.prototype.sort\<close> is stable, as \<open>sort_key\<close> is. The keys are listed in
  the order of first appearance, which is the order of \<^verbatim>\<open>Object.entries\<close> for
  train ids that are not spelled as array indices.
\<close>

definition trainIds :: "ScheduleEntry list \<Rightarrow> string list" where
  "trainIds sch = fold (\<lambda>e. set_add (train_id e)) sch []"

definition itinerary :: "ScheduleEntry list \<Rightarrow> string \<Rightarrow> ScheduleEntry list" where
  "itinerary sch tid = sort_key actual_arrival (filter (\<lambda>e. train_id e = tid) sch)"

definition trainSegments :: "ScheduleEntry list \<Rightarrow> (string \<times> ScheduleEntry list) list" where
  "trainSegments sch = map (\<lambda>tid. (tid, itinerary sch tid)) (trainIds sch)"

datatype Status = Moving | Waiting | Delayed | Stopped

text \<open>The texts of \<^verbatim>\<open>waitReason\<close>, one constructor for each template of the source.\<close>

datatype WaitReason =
    AwaitingDeparture
  | MovingBetween string "string option" int
  | ArrivedAtDestination
  | PlatformConflictResolved
  | AtPlatform

text \<open>The texts of \<^verbatim>\<open>title\<close>, one constructor for each template of the source.\<close>

datatype Title =
    TitlePushed string "string \<times> string" WaitReason
  | TitleAtStation string "string \<times> string" string int
  | TitleOnRoute string "string \<times> string" string string int
  | TitleLastStation string string

record Dot =
  id_dot :: string
  dot_x :: "rat option"
  dot_y :: "rat option"
  fill :: string
  title :: Title
  status :: Status
  trackNumber :: "int option"
  waitReason :: "WaitReason option"
  progress :: "rat option"

definition colorByType :: "string \<Rightarrow> string option" where
  "colorByType ty =
     (if ty = ''Express'' then Some ''#3b82f6''
      else if ty = ''Local'' then Some ''#22c55e''
      else if ty = ''Intercity'' then Some ''#f59e0b''
      else if ty = ''Freight'' then Some ''#8b5cf6''
      else None)"

definition typeColor :: "Train option \<Rightarrow> string" where
  "typeColor t =
     (case t of
        None \<Rightarrow> ''#64748b''
      | Some tr \<Rightarrow>
          (case type_train tr of
             None \<Rightarrow> ''#64748b''
           | Some ty \<Rightarrow> (case colorByType ty of None \<Rightarrow> ''#64748b'' | Some c \<Rightarrow> c)))"

definition colorForEntry :: "Train list \<Rightarrow> ScheduleEntry \<Rightarrow> string" where
  "colorForEntry trains entry =
     (if isDelayed trains entry then ''#ef4444''
      else typeColor (getTrain trains (train_id entry)))"

text \<open>\<^verbatim>\<open>`${t?.origin || '-'} \<rightarrow> ${t?.destination || '-'}`\<close>, as the pair of its two parts.\<close>

definition heading :: "Train option \<Rightarrow> string \<times> string" where
  "heading t =
     (case t of
        None \<Rightarrow> (''-'', ''-'')
      | Some tr \<Rightarrow>
          (case origin tr of None \<Rightarrow> ''-'' | Some s \<Rightarrow> s,
           case destination tr of None \<Rightarrow> ''-'' | Some s \<Rightarrow> s))"

text \<open>Lines 322-323: the status of a train that sits at the station of entry \<open>cur\<close>.\<close>

definition stationStatus :: "Train list \<Rightarrow> int \<Rightarrow> ScheduleEntry \<Rightarrow> Status" where
  "stationStatus trains nowMs cur =
     (if isDelayed trains cur then Delayed
      else if nowMs < actual_departure cur - 300000 then Waiting
      else Stopped)"

text \<open>Lines 317-331: the dot of a train at the station of \<open>cur\<close>, whose node is \<open>n\<close>.\<close>

definition stationDot :: "Train list \<Rightarrow> int \<Rightarrow> string \<Rightarrow> ScheduleEntry \<Rightarrow> Node \<Rightarrow> Dot" where
  "stationDot trains nowMs tid cur n =
     (let st = stationStatus trains nowMs cur
      in \<lparr> id_dot = tid, dot_x = node_x n, dot_y = node_y n,
           fill = colorForEntry trains cur,
           title = TitleAtStation tid (heading (getTrain trains tid)) (station_id cur)
                     (assigned_platform cur),
           status = st, trackNumber = None,
           waitReason = Some (if st = Waiting then AwaitingDeparture
                              else if st = Delayed then PlatformConflictResolved
                              else AtPlatform),
           progress = None \<rparr>)"

text \<open>\<^verbatim>\<open>a + (b - a) * r\<close> on coordinates.\<close>

definition lerp :: "rat option \<Rightarrow> rat option \<Rightarrow> rat \<Rightarrow> rat option" where
  "lerp a b r = (case (a, b) of (Some u, Some v) \<Rightarrow> Some (u + (v - u) * r) | _ \<Rightarrow> None)"

definition findRoute :: "string \<Rightarrow> string \<Rightarrow> Route option" where
  "findRoute c n =
     find (\<lambda>r. (from_route r = c \<and> to_route r = n) \<or> (to_route r = c \<and> from_route r = n)) routes"

text \<open>
  Lines 343-361: the dot of a train between the stations of \<open>cur\<close> and \<open>next\<close>, with
  the number of draws made after it.
\<close>

definition movingDot ::
  "Train list \<Rightarrow> int \<Rightarrow> (nat \<Rightarrow> rat) \<Rightarrow> nat \<Rightarrow> string \<Rightarrow> ScheduleEntry \<Rightarrow> ScheduleEntry
     \<Rightarrow> Node \<Rightarrow> Node \<Rightarrow> Dot \<times> nat" where
  "movingDot trains nowMs rnd k tid cur next a b =
     (let segStart = actual_departure cur;
          segEnd = actual_arrival next;
          r = max 0 (min 1 (of_int (nowMs - segStart) / of_int (max 1 (segEnd - segStart))));
          route = findRoute (station_id cur) (station_id next);
          trackNo = (case route of
                       Some rt \<Rightarrow> \<lfloor>rnd k * of_nat (tracks rt)\<rfloor> + 1
                     | None \<Rightarrow> 1)
      in (\<lparr> id_dot = tid, dot_x = lerp (node_x a) (node_x b) r,
            dot_y = lerp (node_y a) (node_y b) r,
            fill = colorForEntry trains cur,
            title = TitleOnRoute tid (heading (getTrain trains tid)) (station_id cur)
                      (station_id next) trackNo,
            status = Moving, trackNumber = Some trackNo,
            waitReason = None, progress = None \<rparr>,
          (case route of Some rt \<Rightarrow> k + 1 | None \<Rightarrow> k)))"

text \<open>
  The \<^verbatim>\<open>for\<close> loop over the itinerary (lines 311-367), on the entries from index
  \<open>i\<close> on: \<open>cur\<close> is the head and \<open>next\<close> the entry after it, if any. The result is
  the dot pushed before \<^verbatim>\<open>break\<close>, or \<open>None\<close> when the loop ends with
  \<^verbatim>\<open>placed\<close> still false.
\<close>

fun walk ::
  "Train list \<Rightarrow> Node list \<Rightarrow> int \<Rightarrow> (nat \<Rightarrow> rat) \<Rightarrow> nat \<Rightarrow> string \<Rightarrow> ScheduleEntry list
     \<Rightarrow> Dot option \<times> nat" where
  "walk trains ns nowMs rnd k tid [] = (None, k)"
| "walk trains ns nowMs rnd k tid (cur # rest) =
     (case (if nowMs \<le> actual_departure cur \<or> rest = []
            then nodeFor ns (station_id cur) else None) of
        Some n \<Rightarrow> (Some (stationDot trains nowMs tid cur n), k)
      | None \<Rightarrow>
          (case rest of
             [] \<Rightarrow> walk trains ns nowMs rnd k tid rest
           | next # _ \<Rightarrow>
               (if actual_departure cur \<le> nowMs \<and> nowMs \<le> actual_arrival next then
                  (case (nodeFor ns (station_id cur), nodeFor ns (station_id next)) of
                     (Some a, Some b) \<Rightarrow>
                       (case movingDot trains nowMs rnd k tid cur next a b of
                          (d, k') \<Rightarrow> (Some d, k'))
                   | _ \<Rightarrow> walk trains ns nowMs rnd k tid rest)
                else walk trains ns nowMs rnd k tid rest)))"

text \<open>Lines 368-380: a train that the loop did not place sits at its last station.\<close>

definition lastDot :: "Train list \<Rightarrow> string \<Rightarrow> ScheduleEntry \<Rightarrow> Node \<Rightarrow> Dot" where
  "lastDot trains tid lst n =
     \<lparr> id_dot = tid, dot_x = node_x n, dot_y = node_y n,
       fill = colorForEntry trains lst,
       title = TitleLastStation tid (station_id lst),
       status = Stopped, trackNumber = None, waitReason = None, progress = None \<rparr>"

definition dotForTrain ::
  "Train list \<Rightarrow> Node list \<Rightarrow> int \<Rightarrow> (nat \<Rightarrow> rat) \<Rightarrow> nat \<Rightarrow> string \<Rightarrow> ScheduleEntry list
     \<Rightarrow> Dot option \<times> nat" where
  "dotForTrain trains ns nowMs rnd k tid entries =
     (if entries = [] then (None, k)
      else
        (case walk trains ns nowMs rnd k tid entries of
           (Some d, k') \<Rightarrow> (Some d, k')
         | (None, k') \<Rightarrow>
             (case nodeFor ns (station_id (last entries)) of
                Some n \<Rightarrow> (Some (lastDot trains tid (last entries) n), k')
              | None \<Rightarrow> (None, k'))))"

text \<open>The outer loop over \<^verbatim>\<open>Object.entries(trainSegments)\<close> (line 308).\<close>

fun fallbackDots ::
  "Train list \<Rightarrow> Node list \<Rightarrow> int \<Rightarrow> (nat \<Rightarrow> rat) \<Rightarrow> nat \<Rightarrow> (string \<times> ScheduleEntry list) list
     \<Rightarrow> Dot list" where
  "fallbackDots trains ns nowMs rnd k [] = []"
| "fallbackDots trains ns nowMs rnd k ((tid, entries) # segs) =
     (case dotForTrain trains ns nowMs rnd k tid entries of
        (Some d, k') \<Rightarrow> d # fallbackDots trains ns nowMs rnd k' segs
      | (None, k') \<Rightarrow> fallbackDots trains ns nowMs rnd k' segs)"

text \<open>
  A pushed position (lines 257-305). \<^verbatim>\<open>position.progress || 0\<close> reads a missing
  progress as 0.
\<close>

record TrainPosition =
  pos_train_id :: string
  pos_status :: string
  from_station :: string
  to_station :: "string option"
  pos_progress :: "rat option"

definition nodeForOpt :: "Node list \<Rightarrow> string option \<Rightarrow> Node option" where
  "nodeForOpt ns i = (case i of None \<Rightarrow> None | Some j \<Rightarrow> nodeFor ns j)"

text \<open>
  The placement of a pushed position: coordinates, status and wait reason, or \<open>None\<close>
  when \<^verbatim>\<open>x\<close> and \<^verbatim>\<open>y\<close> stay undefined.
\<close>

definition pushedPlace ::
  "Node list \<Rightarrow> TrainPosition \<Rightarrow> (rat option \<times> rat option \<times> Status \<times> WaitReason) option" where
  "pushedPlace ns position =
     (if pos_status position = ''waiting'' then
        (case nodeFor ns (from_station position) of
           Some n \<Rightarrow> Some (node_x n, node_y n, Waiting, AwaitingDeparture)
         | None \<Rightarrow> None)
      else if pos_status position = ''moving'' then
        (case (nodeFor ns (from_station position), nodeForOpt ns (to_station position)) of
           (Some fromNode, Some toNode) \<Rightarrow>
             (let p = (case pos_progress position of None \<Rightarrow> 0 | Some q \<Rightarrow> q)
              in Some (lerp (node_x fromNode) (node_x toNode) p,
                       lerp (node_y fromNode) (node_y toNode) p,
                       Moving,
                       MovingBetween (from_station position) (to_station position)
                         (math_round (p * 100))))
         | _ \<Rightarrow> None)
      else if pos_status position = ''arrived'' then
        (case nodeForOpt ns (to_station position) of
           Some n \<Rightarrow> Some (node_x n, node_y n, Stopped, ArrivedAtDestination)
         | None \<Rightarrow> None)
      else None)"

definition pushedDot :: "Train list \<Rightarrow> Node list \<Rightarrow> TrainPosition \<Rightarrow> Dot option" where
  "pushedDot trains ns position =
     (case getTrain trains (pos_train_id position) of
        None \<Rightarrow> None
      | Some train \<Rightarrow>
          (case pushedPlace ns position of
             None \<Rightarrow> None
           | Some (px, py, st, wr) \<Rightarrow>
               Some \<lparr> id_dot = pos_train_id position, dot_x = px, dot_y = py,
                      fill = typeColor (Some train),
                      title = TitlePushed (pos_train_id position) (heading (Some train)) wr,
                      status = st, trackNumber = None, waitReason = Some wr,
                      progress = pos_progress position \<rparr>))"

text \<open>\<^verbatim>\<open>trainDots\<close> (lines 247-384).\<close>

definition trainDots ::
  "Train list \<Rightarrow> Node list \<Rightarrow> TrainPosition list \<Rightarrow> ScheduleEntry list \<Rightarrow> int \<Rightarrow> (nat \<Rightarrow> rat)
     \<Rightarrow> Dot list" where
  "trainDots trains ns trainPositions sch nowMs rnd =
     (if trainPositions \<noteq> [] then List.map_filter (pushedDot trains ns) trainPositions
      else fallbackDots trains ns nowMs rnd 0 (trainSegments sch))"

text \<open>What a dot shows of a train apart from its track number: identity, place and status.\<close>

definition placement :: "Dot \<Rightarrow> string \<times> rat option \<times> rat option \<times> Status" where
  "placement d = (id_dot d, dot_x d, dot_y d, status d)"

section \<open>Auxiliary notions\<close>

text \<open>
  The two tests of one round of the itinerary loop, named so that the loop can be
  unfolded one round at a time: the node at which the train is placed in the station
  branch, and the next entry with both nodes in the segment branch.
\<close>

definition stationChoice :: "Node list \<Rightarrow> int \<Rightarrow> ScheduleEntry \<Rightarrow> ScheduleEntry list \<Rightarrow> Node option" where
  "stationChoice ns nowMs cur rest =
     (if nowMs \<le> actual_departure cur \<or> rest = [] then nodeFor ns (station_id cur) else None)"

definition movingChoice ::
  "Node list \<Rightarrow> int \<Rightarrow> ScheduleEntry \<Rightarrow> ScheduleEntry list \<Rightarrow> (ScheduleEntry \<times> Node \<times> Node) option" where
  "movingChoice ns nowMs cur rest =
     (case rest of
        [] \<Rightarrow> None
      | nx # _ \<Rightarrow>
          (if actual_departure cur \<le> nowMs \<and> nowMs \<le> actual_arrival nx then
             (case (nodeFor ns (station_id cur), nodeFor ns (station_id nx)) of
                (Some a, Some b) \<Rightarrow> Some (nx, a, b)
              | _ \<Rightarrow> None)
           else None))"

text \<open>
  The rounds of the itinerary loop before the last entry of a list place nothing: in each
  of them neither the station test (lines 316-318) nor the segment test (lines 336-342)
  succeeds, so the loop goes on to the next entry.
\<close>

fun passes :: "Node list \<Rightarrow> int \<Rightarrow> ScheduleEntry list \<Rightarrow> bool" where
  "passes ns nowMs (c # nx # es) \<longleftrightarrow>
     \<not> (nowMs \<le> actual_departure c \<and> nodeFor ns (station_id c) \<noteq> None)
     \<and> \<not> (actual_departure c \<le> nowMs \<and> nowMs \<le> actual_arrival nx
          \<and> nodeFor ns (station_id c) \<noteq> None \<and> nodeFor ns (station_id nx) \<noteq> None)
     \<and> passes ns nowMs (nx # es)"
| "passes ns nowMs es \<longleftrightarrow> True"

text \<open>
  An object used as a dictionary of entries by train id is well keyed when every entry is
  stored under its own train id.
\<close>

definition keyed :: "(string \<times> ScheduleEntry) list \<Rightarrow> bool" where
  "keyed al \<longleftrightarrow> (\<forall>p \<in> set al. train_id (snd p) = fst p)"

text \<open>Concrete data for the examples: objects with the optional fields left out.\<close>

definition mkEntry :: "string \<Rightarrow> string \<Rightarrow> int \<Rightarrow> int \<Rightarrow> int \<Rightarrow> ScheduleEntry" where
  "mkEntry tid sid p arr dep =
     \<lparr> train_id = tid, station_id = sid, assigned_platform = p, actual_arrival = arr,
       actual_departure = dep, reason = None \<rparr>"

definition mkTrain :: "string \<Rightarrow> int option \<Rightarrow> int option \<Rightarrow> Train" where
  "mkTrain i arr dep =
     \<lparr> id_train = i, type_train = None, priority = None, scheduled_arrival = arr,
       scheduled_departure = dep, origin = None, destination = None, platform_pref = None \<rparr>"

definition mkStation :: "string \<Rightarrow> Station" where
  "mkStation i = \<lparr> id_station = i, platforms = 2, latitude = None, longitude = None \<rparr>"

definition mkStore :: "ScheduleEntry list \<Rightarrow> ScheduleEntry list \<Rightarrow> Store" where
  "mkStore cur base =
     \<lparr> schedule = cur, baselineSchedule = base, previousSchedule = [], delaysBefore = [],
       delaysAfter = [], loading = False \<rparr>"

definition mkResponse :: "ScheduleEntry list \<Rightarrow> ScheduleResponse" where
  "mkResponse new =
     \<lparr> resp_schedule = Some new, delays_before_min = None, delays_after_min = None \<rparr>"

text \<open>Two runs of \<^verbatim>\<open>Math.random()\<close>: one that always draws 0, one that always draws 1/2.\<close>

definition rndLow :: "nat \<Rightarrow> rat" where
  "rndLow k = 0"

definition rndHalf :: "nat \<Rightarrow> rat" where
  "rndHalf k = 1 / 2"

definition demoItinerary :: "ScheduleEntry list" where
  "demoItinerary = [mkEntry ''T1'' ''HYB'' 1 0 0, mkEntry ''T1'' ''SC'' 1 600000 660000]"

definition demoNodes :: "Node list" where
  "demoNodes = nodes rndLow [mkStation ''HYB'', mkStation ''SC'']"

definition demoWaiting :: "Dot" where
  "demoWaiting = stationDot [mkTrain ''T1'' (Some 0) (Some 0)] 0 ''T1''
                   (mkEntry ''T1'' ''HYB'' 1 0 1000000)
                   \<lparr> id_node = ''HYB'', node_x = Some 200, node_y = Some 160,
                     node_platforms = Some 4 \<rparr>"

definition demoStops :: "ScheduleEntry list" where
  "demoStops = [mkEntry ''T1'' ''HYB'' 1 0 0, mkEntry ''T1'' ''SC'' 1 600000 2000000]"

definition demoPosition :: TrainPosition where
  "demoPosition = \<lparr> pos_train_id = ''T1'', pos_status = ''moving'', from_station = ''HYB'',
                     to_station = Some ''SC'', pos_progress = Some (1 / 4) \<rparr>"

section \<open>Properties of the Gantt placement\<close>

lemma spanOf_ge_one: "1 \<le> spanOf w"
  by (simp add: spanOf_def)

text \<open>
  Claim C8. For every entry and every window, a window of zero span included, the
  placement divides by the effective span \<open>max 1 (max - min)\<close>, which is never zero, so
  both percentages are finite numbers, given by the quotients with that divisor; the
  left offset is never negative and the width is never below one half of a percent.
\<close>

theorem C8_placeBar_total_and_bounded:
  "spanOf w = max 1 (wmax w - wmin w) \<and> spanOf w \<noteq> 0
   \<and> spanOf \<lparr> wmin = m, wmax = m \<rparr> = 1
   \<and> leftPct (placeBar w e) =
        Finite (max 0 ((of_int (actual_arrival e) - wmin w) / max 1 (wmax w - wmin w) * 100))
   \<and> widthPct (placeBar w e) =
        Finite (max (1 / 2)
          ((of_int (actual_departure e) - of_int (actual_arrival e)) / max 1 (wmax w - wmin w) * 100))
   \<and> (\<exists>l. leftPct (placeBar w e) = Finite l \<and> 0 \<le> l)
   \<and> (\<exists>v. widthPct (placeBar w e) = Finite v \<and> 1 / 2 \<le> v)"
proof -
  have nz: "spanOf w \<noteq> 0"
    using spanOf_ge_one [of w] by simp
  have l: "leftPct (placeBar w e) =
        Finite (max 0 ((of_int (actual_arrival e) - wmin w) / max 1 (wmax w - wmin w) * 100))"
    using nz by (simp add: placeBar_def Let_def js_divide_def js_percent_def js_max_def spanOf_def)
  have v: "widthPct (placeBar w e) =
        Finite (max (1 / 2)
          ((of_int (actual_departure e) - of_int (actual_arrival e)) / max 1 (wmax w - wmin w) * 100))"
    using nz by (simp add: placeBar_def Let_def js_divide_def js_percent_def js_max_def spanOf_def)
  have m: "spanOf \<lparr> wmin = m, wmax = m \<rparr> = 1"
    by (simp add: spanOf_def)
  have d: "spanOf w = max 1 (wmax w - wmin w)"
    by (simp add: spanOf_def)
  have lb: "\<exists>l. leftPct (placeBar w e) = Finite l \<and> 0 \<le> l"
    unfolding l by (rule exI, rule conjI, rule refl, rule max.cobounded1)
  have vb: "\<exists>v. widthPct (placeBar w e) = Finite v \<and> 1 / 2 \<le> v"
    unfolding v by (rule exI, rule conjI, rule refl, rule max.cobounded1)
  from d nz m l v lb vb show ?thesis
    by blast
qed

text \<open>
  A one-minute stop in a window of zero span: the divisor is 1, the bar starts at the left
  edge and is 6000000 percent wide.
\<close>

theorem C8_placeBar_total_and_bounded_witness:
  "spanOf \<lparr> wmin = 5, wmax = 5 \<rparr> = 1
   \<and> leftPct (placeBar \<lparr> wmin = 5, wmax = 5 \<rparr> (mkEntry ''T1'' ''HYB'' 1 0 60000)) = Finite 0
   \<and> widthPct (placeBar \<lparr> wmin = 5, wmax = 5 \<rparr> (mkEntry ''T1'' ''HYB'' 1 0 60000))
       = Finite 6000000"
  using C8_placeBar_total_and_bounded
    [of "\<lparr> wmin = 5, wmax = 5 \<rparr>" 5 "mkEntry ''T1'' ''HYB'' 1 0 60000"]
  by (simp add: mkEntry_def)

section \<open>Properties of the KPI computation\<close>

lemma kpiStep_alt:
  "kpiStep trains s acc =
     (fst acc + (if kpiOntime trains s then 1 else 0), snd acc + kpiDelay trains s)"
  by (cases acc)
     (simp add: kpiStep_def kpiOntime_def kpiDelay_def kpiScheduled_def Let_def
        split: option.splits)

lemma kpi_fold:
  "fold (kpiStep trains) xs acc =
     (fst acc + length (filter (kpiOntime trains) xs), snd acc + sum_list (map (kpiDelay trains) xs))"
proof (induction xs arbitrary: acc)
  case Nil
  show ?case by simp
next
  case (Cons s xs)
  have "fold (kpiStep trains) (s # xs) acc = fold (kpiStep trains) xs (kpiStep trains s acc)"
    by simp
  also have "\<dots> = (fst (kpiStep trains s acc) + length (filter (kpiOntime trains) xs),
                    snd (kpiStep trains s acc) + sum_list (map (kpiDelay trains) xs))"
    by (rule Cons.IH)
  also have "\<dots> = (fst acc + length (filter (kpiOntime trains) (s # xs)),
                    snd acc + sum_list (map (kpiDelay trains) (s # xs)))"
    by (simp add: kpiStep_alt)
  finally show ?case .
qed

lemma floor_rat_numeral_div:
  "\<lfloor>(numeral a :: rat) / numeral b\<rfloor> = numeral a div numeral b"
  by (metis floor_divide_of_int_eq of_int_numeral)

text \<open>
  Claim C10. For an empty schedule the KPIs are exactly total 0, on-time percentage 0 and average
  delay 0. For a non-empty schedule the entry count is not zero, and it is the denominator both
  of the on-time percentage (over the entries that are at most two minutes late) and of the
  average delay (over the delays of the entries with a known scheduled arrival); entries
  without a known scheduled arrival still count in the denominator.
\<close>

theorem C10_kpis:
  "computeKPIs trains [] = \<lparr> total = 0, ontimePct = 0, avgDelay = AvgNumber 0 \<rparr>
   \<and> (sch \<noteq> [] \<longrightarrow>
        length sch \<noteq> 0 \<and>
        computeKPIs trains sch =
          \<lparr> total = length sch,
            ontimePct = math_round
              ((of_nat (length (filter (kpiOntime trains) sch)) / of_nat (length sch)) * 100),
            avgDelay = AvgFixed1 (toFixed1
              (sum_list (map (kpiDelay trains) sch) / of_nat (length sch))) \<rparr>)"
  by (simp add: computeKPIs_def kpi_fold Let_def)

text \<open>Three entries, one on time, one ten minutes late, one of an unknown train.\<close>

theorem C10_kpis_witness:
  "computeKPIs [mkTrain ''T1'' (Some 0) (Some 60000)]
     [mkEntry ''T1'' ''HYB'' 1 60000 120000, mkEntry ''T2'' ''HYB'' 2 0 60000,
      mkEntry ''T1'' ''SC'' 1 600000 660000]
   = \<lparr> total = 3, ontimePct = 33, avgDelay = AvgFixed1 37 \<rparr>"
  using C10_kpis
    [of "[mkTrain ''T1'' (Some 0) (Some 60000)]"
        "[mkEntry ''T1'' ''HYB'' 1 60000 120000, mkEntry ''T2'' ''HYB'' 2 0 60000,
          mkEntry ''T1'' ''SC'' 1 600000 660000]"]
  by (simp add: kpiOntime_def kpiDelay_def kpiScheduled_def delayMinutes_def math_round_def
      toFixed1_def mkEntry_def mkTrain_def floor_rat_numeral_div)

section \<open>Properties of the changed-train diff\<close>

lemma diffStep_set:
  "set (diffStep before a acc) =
     set acc \<union> {t. t = train_id a \<and> (\<exists>b. find (\<lambda>b. train_id b = train_id a) before = Some b \<and> differs b a)}"
  by (auto simp: diffStep_def set_add_def split: option.splits)

lemma fold_diffStep_set:
  "set (fold (diffStep before) after acc) =
     set acc \<union> {train_id a | a. a \<in> set after \<and>
        (\<exists>b. find (\<lambda>b. train_id b = train_id a) before = Some b \<and> differs b a)}"
proof (induction after arbitrary: acc)
  case Nil
  show ?case by simp
next
  case (Cons a after)
  show ?case
    by (simp add: Cons.IH diffStep_set) blast
qed

lemma changedTrains_set:
  "set (changedTrains before after) =
     {train_id a | a. a \<in> set after \<and>
        (\<exists>b. find (\<lambda>b. train_id b = train_id a) before = Some b \<and> differs b a)}"
  by (simp add: changedTrains_def fold_diffStep_set)

lemma find_None_absent:
  "tid \<notin> train_id ` set before \<Longrightarrow> find (\<lambda>b. train_id b = tid) before = None"
  by (auto simp: find_None_iff)

lemma find_distinct_self:
  "distinct (map train_id S) \<Longrightarrow> a \<in> set S \<Longrightarrow> find (\<lambda>b. train_id b = train_id a) S = Some a"
proof (induction S)
  case Nil then show ?case by simp
next
  case (Cons x S)
  then show ?case by (auto simp: image_iff)
qed

section \<open>Properties of the before/after comparison\<close>

lemma map_of_put: "map_of (put k v al) = (map_of al)(k \<mapsto> v)"
  by (induction k v al rule: put.induct) (auto simp: fun_eq_iff)

lemma set_put: "set (put k v al) \<subseteq> insert (k, v) (set al)"
  by (induction k v al rule: put.induct) auto

lemma keyed_put: "keyed al \<Longrightarrow> train_id v = k \<Longrightarrow> keyed (put k v al)"
  using set_put [of k v al] by (auto simp: keyed_def)

lemma find_app:
  "find P (xs @ ys) = (case find P xs of Some x \<Rightarrow> Some x | None \<Rightarrow> find P ys)"
  by (induction xs) simp_all

lemma keyed_fold_put: "keyed al \<Longrightarrow> keyed (fold (\<lambda>e. put (train_id e) e) es al)"
  by (induction es arbitrary: al) (simp_all add: keyed_put)

lemma find_keyed: "keyed al \<Longrightarrow> find (\<lambda>b. train_id b = tid) (map snd al) = map_of al tid"
  by (induction al) (auto simp: keyed_def)

lemma map_of_fold_put:
  "map_of (fold (\<lambda>e. put (train_id e) e) es al) tid =
     (case find (\<lambda>b. train_id b = tid) (rev es) of Some e \<Rightarrow> Some e | None \<Rightarrow> map_of al tid)"
proof (induction es arbitrary: al)
  case Nil
  show ?case by simp
next
  case (Cons e es)
  show ?case
    by (simp add: Cons.IH find_app map_of_put split: option.splits)
qed

lemma forced_ids: "train_id (forcedT104 zone t) = ''T104''" "train_id (forcedT106 zone t) = ''T106''"
  by (simp_all add: forcedT104_def forcedT106_def)

lemma find_beforeEntries:
  "find (\<lambda>b. train_id b = tid) (beforeEntries zone trains before) =
     (if tid = ''T106'' \<and> getTrain trains ''T106'' \<noteq> None
        then map_option (forcedT106 zone) (getTrain trains ''T106'')
      else if tid = ''T104'' \<and> getTrain trains ''T104'' \<noteq> None
        then map_option (forcedT104 zone) (getTrain trains ''T104'')
      else find (\<lambda>b. train_id b = tid) (rev before))"
proof -
  let ?b0 = "fold (\<lambda>e. put (train_id e) e) before []"
  let ?b1 = "case getTrain trains ''T104'' of None \<Rightarrow> ?b0
             | Some t \<Rightarrow> put ''T104'' (forcedT104 zone t) ?b0"
  let ?b2 = "case getTrain trains ''T106'' of None \<Rightarrow> ?b1
             | Some t \<Rightarrow> put ''T106'' (forcedT106 zone t) ?b1"
  have k0: "keyed ?b0" by (rule keyed_fold_put) (simp add: keyed_def)
  have k1: "keyed ?b1" using k0 by (auto split: option.splits intro: keyed_put simp: forced_ids)
  have k2: "keyed ?b2" using k1 by (auto split: option.splits intro: keyed_put simp: forced_ids)
  have m0: "map_of ?b0 tid = find (\<lambda>b. train_id b = tid) (rev before)"
    by (simp add: map_of_fold_put split: option.splits)
  have m1: "map_of ?b1 tid =
              (if tid = ''T104'' \<and> getTrain trains ''T104'' \<noteq> None
                 then map_option (forcedT104 zone) (getTrain trains ''T104'')
               else find (\<lambda>b. train_id b = tid) (rev before))"
    using m0 by (auto simp: map_of_put split: option.splits)
  have m2: "map_of ?b2 tid =
              (if tid = ''T106'' \<and> getTrain trains ''T106'' \<noteq> None
                 then map_option (forcedT106 zone) (getTrain trains ''T106'')
               else if tid = ''T104'' \<and> getTrain trains ''T104'' \<noteq> None
                 then map_option (forcedT104 zone) (getTrain trains ''T104'')
               else find (\<lambda>b. train_id b = tid) (rev before))"
    using m1 by (auto simp: map_of_put split: option.splits)
  have "beforeEntries zone trains before = map snd ?b2"
    by (simp add: beforeEntries_def Let_def)
  then show ?thesis using find_keyed [OF k2, of tid] m2 by simp
qed

lemma find_rev_distinct_self:
  "distinct (map train_id S) \<Longrightarrow> a \<in> set S \<Longrightarrow>
     find (\<lambda>b. train_id b = train_id a) (rev S) = Some a"
  using find_distinct_self [of "rev S" a] by (simp add: rev_map [symmetric])

lemma find_rev_absent:
  "tid \<notin> train_id ` set before \<Longrightarrow> find (\<lambda>b. train_id b = tid) (rev before) = None"
  using find_None_absent [of tid "rev before"] by simp

text \<open>
  Claim C3. As amended: the diff compares every entry of the snapshot after with the entry
  that the rebuilt before-list holds for its train: the synthetic conflict entry when the
  train is T104 or T106 and is loaded, and else the last entry of that train in the
  snapshot before. The diff of a snapshot against itself is empty when no train id is
  repeated in it and neither T104 nor T106 is loaded, and this is what the panel shows
  when baseline and current are that snapshot. A train absent from the snapshot before is
  never counted as changed, unless it is T104 or T106 and loaded.
\<close>

theorem C3_diff_against_itself:
  "set (snapshotDiff zone trains before after) =
     {train_id a | a. a \<in> set after \<and>
        (\<exists>b. find (\<lambda>b. train_id b = train_id a) (beforeEntries zone trains before) = Some b
             \<and> differs b a)}
   \<and> find (\<lambda>b. train_id b = tid) (beforeEntries zone trains before) =
        (if tid = ''T106'' \<and> getTrain trains ''T106'' \<noteq> None
           then map_option (forcedT106 zone) (getTrain trains ''T106'')
         else if tid = ''T104'' \<and> getTrain trains ''T104'' \<noteq> None
           then map_option (forcedT104 zone) (getTrain trains ''T104'')
         else find (\<lambda>b. train_id b = tid) (rev before))
   \<and> (distinct (map train_id S) \<and> getTrain trains ''T104'' = None \<and> getTrain trains ''T106'' = None
        \<longrightarrow> snapshotDiff zone trains S S = [])
   \<and> (tid \<notin> train_id ` set before
        \<and> (tid = ''T104'' \<longrightarrow> getTrain trains ''T104'' = None)
        \<and> (tid = ''T106'' \<longrightarrow> getTrain trains ''T106'' = None)
        \<longrightarrow> tid \<notin> set (snapshotDiff zone trains before after))
   \<and> (baselineSchedule st = S \<and> schedule st = S \<and> S \<noteq> []
        \<longrightarrow> comparisonChanged zone trains nowMs st = snapshotDiff zone trains S S)"
proof (intro conjI impI)
  show "set (snapshotDiff zone trains before after) =
     {train_id a | a. a \<in> set after \<and>
        (\<exists>b. find (\<lambda>b. train_id b = train_id a) (beforeEntries zone trains before) = Some b
             \<and> differs b a)}"
    by (simp add: snapshotDiff_def changedTrains_set)
next
  show "find (\<lambda>b. train_id b = tid) (beforeEntries zone trains before) =
        (if tid = ''T106'' \<and> getTrain trains ''T106'' \<noteq> None
           then map_option (forcedT106 zone) (getTrain trains ''T106'')
         else if tid = ''T104'' \<and> getTrain trains ''T104'' \<noteq> None
           then map_option (forcedT104 zone) (getTrain trains ''T104'')
         else find (\<lambda>b. train_id b = tid) (rev before))"
    by (rule find_beforeEntries)
next
  assume h: "distinct (map train_id S) \<and> getTrain trains ''T104'' = None
             \<and> getTrain trains ''T106'' = None"
  have "set (snapshotDiff zone trains S S) = {}"
    unfolding snapshotDiff_def changedTrains_set find_beforeEntries
    using h find_rev_distinct_self [of S] by (auto simp: differs_def)
  then show "snapshotDiff zone trains S S = []" by simp
next
  assume h: "tid \<notin> train_id ` set before
        \<and> (tid = ''T104'' \<longrightarrow> getTrain trains ''T104'' = None)
        \<and> (tid = ''T106'' \<longrightarrow> getTrain trains ''T106'' = None)"
  then have "find (\<lambda>b. train_id b = tid) (beforeEntries zone trains before) = None"
    using find_rev_absent [of tid before] by (simp add: find_beforeEntries)
  then show "tid \<notin> set (snapshotDiff zone trains before after)"
    by (auto simp: snapshotDiff_def changedTrains_set)
next
  assume "baselineSchedule st = S \<and> schedule st = S \<and> S \<noteq> []"
  then show "comparisonChanged zone trains nowMs st = snapshotDiff zone trains S S"
    by (simp add: comparisonChanged_def baseBefore_def afterEntries_def Let_def)
qed

text \<open>A snapshot of two trains, and a train that only the snapshot after has.\<close>

theorem C3_diff_against_itself_witness:
  "distinct (map train_id [mkEntry ''T1'' ''HYB'' 1 0 60000, mkEntry ''T2'' ''HYB'' 2 0 60000])
   \<and> getTrain [mkTrain ''T1'' None None] ''T104'' = None
   \<and> getTrain [mkTrain ''T1'' None None] ''T106'' = None
   \<and> snapshotDiff 0 [mkTrain ''T1'' None None]
        [mkEntry ''T1'' ''HYB'' 1 0 60000, mkEntry ''T2'' ''HYB'' 2 0 60000]
        [mkEntry ''T1'' ''HYB'' 1 0 60000, mkEntry ''T2'' ''HYB'' 2 0 60000] = []
   \<and> comparisonChanged 0 [mkTrain ''T1'' None None] 0
        (mkStore [mkEntry ''T1'' ''HYB'' 1 0 60000, mkEntry ''T2'' ''HYB'' 2 0 60000]
                 [mkEntry ''T1'' ''HYB'' 1 0 60000, mkEntry ''T2'' ''HYB'' 2 0 60000]) = []
   \<and> ''T3'' \<notin> train_id ` set [mkEntry ''T1'' ''HYB'' 1 0 60000]
   \<and> ''T3'' \<notin> set (snapshotDiff 0 [mkTrain ''T1'' None None]
                       [mkEntry ''T1'' ''HYB'' 1 0 60000] [mkEntry ''T3'' ''HYB'' 1 0 60000])"
  using C3_diff_against_itself
    [of 0 "[mkTrain ''T1'' None None]" "[mkEntry ''T1'' ''HYB'' 1 0 60000]"
        "[mkEntry ''T3'' ''HYB'' 1 0 60000]" "''T3''"
        "[mkEntry ''T1'' ''HYB'' 1 0 60000, mkEntry ''T2'' ''HYB'' 2 0 60000]"
        "mkStore [mkEntry ''T1'' ''HYB'' 1 0 60000, mkEntry ''T2'' ''HYB'' 2 0 60000]
                 [mkEntry ''T1'' ''HYB'' 1 0 60000, mkEntry ''T2'' ''HYB'' 2 0 60000]" 0]
  by (simp add: mkEntry_def mkTrain_def mkStore_def getTrain_def)

text \<open>
  The claim as stated fails: a train with two stops is changed against itself (its first
  entry is compared with its last), a loaded T104 is changed against itself (its entry is
  compared with the synthetic one), and a loaded T104 absent from the snapshot before is
  counted as changed.
\<close>

theorem C3_repeated_train_counterexample:
  "snapshotDiff 0 []
     [mkEntry ''T1'' ''HYB'' 1 0 60000, mkEntry ''T1'' ''SC'' 2 600000 660000]
     [mkEntry ''T1'' ''HYB'' 1 0 60000, mkEntry ''T1'' ''SC'' 2 600000 660000] = [''T1'']
   \<and> snapshotDiff 0 [mkTrain ''T104'' None None]
        [mkEntry ''T104'' ''HYB'' 2 0 60000] [mkEntry ''T104'' ''HYB'' 2 0 60000] = [''T104'']
   \<and> snapshotDiff 0 [mkTrain ''T104'' None None]
        [mkEntry ''T1'' ''HYB'' 1 0 60000] [mkEntry ''T104'' ''HYB'' 2 0 60000] = [''T104'']"
  by (simp add: snapshotDiff_def beforeEntries_def changedTrains_def diffStep_def differs_def
      set_add_def getTrain_def forcedT104_def mkEntry_def mkTrain_def Let_def)

section \<open>Properties of the reconciliation store\<close>

lemma fetchSchedule_schedule:
  "resp_schedule data = Some new \<Longrightarrow>
   schedule (fetchSchedule seenS seenB (Ok_body data) br st) = new"
  by (simp add: fetchSchedule_def fetchBaseline_def promote_def Let_def split: Reply.splits)

lemma fetchSchedule_baseline:
  "resp_schedule data = Some new \<Longrightarrow>
   baselineSchedule (fetchSchedule seenS seenB (Ok_body data) br st) =
     (if seenB = [] then
        (case br of Ok_body D \<Rightarrow> D
         | _ \<Rightarrow> if seenS \<noteq> [] then seenS else baselineSchedule st)
      else baselineSchedule st)"
  by (simp add: fetchSchedule_def fetchBaseline_def promote_def Let_def split: Reply.splits)

lemma fetchSchedule_seen_baseline:
  "seenB \<noteq> [] \<Longrightarrow>
   baselineSchedule (fetchSchedule seenS seenB sr br st) = baselineSchedule st"
  by (simp add: fetchSchedule_def fetchBaseline_def promote_def Let_def
      split: Reply.splits option.splits)

text \<open>
  A call that sees a baseline never touches it; this is the guard of lines 740 and 754.
  A poll tick never sees one.
\<close>

lemma pollTick_baseline:
  "resp_schedule data = Some new \<Longrightarrow>
   baselineSchedule (pollTick (Ok_body data) (Ok_body D) st) = D"
  by (simp add: pollTick_def fetchSchedule_baseline)

lemma resetSystem_failed:
  "resetSystem seenS seenB Rejected sr br st = st"
  "resetSystem seenS seenB Status_not_ok sr br st = st"
  by (simp_all add: resetSystem_def)

text \<open>
  A successful reset from a render that saw a baseline leaves the store without one: the
  \<^verbatim>\<open>fetchSchedule\<close> it runs still sees the old baseline and does not ask the server.
\<close>

lemma resetSystem_clears_baseline:
  "seenB \<noteq> [] \<Longrightarrow>
   baselineSchedule (resetSystem seenS seenB (Ok_body u) sr br st) = []"
  by (simp add: resetSystem_def fetchSchedule_seen_baseline)

text \<open>
  Claim C1. As amended: from a store without baseline and with a non-empty current snapshot A,
  an ingest of B that sees the store sets current to B, and sets baseline to A when the
  follow-up request for the server baseline does not deliver one, and to the delivered
  baseline when it does. If the baseline is non-empty after that, a further ingest of a
  snapshot equal to B leaves baseline and current as they are.
\<close>

theorem C1_ingest_promotes_current:
  assumes "baselineSchedule st = []" and "schedule st = A" and "A \<noteq> []"
    and "resp_schedule dataB = Some B" and "resp_schedule dataB' = Some B"
    and "st' = ingest (Ok_body dataB) baselineReply st"
    and "st'' = ingest (Ok_body dataB') baselineReply' st'"
  shows "schedule st' = B
     \<and> baselineSchedule st' = (case baselineReply of Ok_body D \<Rightarrow> D | _ \<Rightarrow> A)
     \<and> (baselineSchedule st' \<noteq> [] \<longrightarrow>
          baselineSchedule st'' = baselineSchedule st' \<and> schedule st'' = B)"
  using assms
  by (simp add: ingest_def fetchSchedule_schedule fetchSchedule_baseline
        fetchSchedule_seen_baseline split: Reply.splits)

text \<open>The scenario with a server that has no baseline to give.\<close>

theorem C1_ingest_promotes_current_witness:
  "schedule (ingest (Ok_body (mkResponse [mkEntry ''T1'' ''HYB'' 2 0 60000])) Rejected
              (mkStore [mkEntry ''T1'' ''HYB'' 1 0 60000] []))
     = [mkEntry ''T1'' ''HYB'' 2 0 60000]
   \<and> baselineSchedule (ingest (Ok_body (mkResponse [mkEntry ''T1'' ''HYB'' 2 0 60000])) Rejected
              (mkStore [mkEntry ''T1'' ''HYB'' 1 0 60000] []))
     = [mkEntry ''T1'' ''HYB'' 1 0 60000]
   \<and> baselineSchedule
       (ingest (Ok_body (mkResponse [mkEntry ''T1'' ''HYB'' 2 0 60000])) Status_not_ok
         (ingest (Ok_body (mkResponse [mkEntry ''T1'' ''HYB'' 2 0 60000])) Rejected
              (mkStore [mkEntry ''T1'' ''HYB'' 1 0 60000] [])))
     = [mkEntry ''T1'' ''HYB'' 1 0 60000]
   \<and> schedule
       (ingest (Ok_body (mkResponse [mkEntry ''T1'' ''HYB'' 2 0 60000])) Status_not_ok
         (ingest (Ok_body (mkResponse [mkEntry ''T1'' ''HYB'' 2 0 60000])) Rejected
              (mkStore [mkEntry ''T1'' ''HYB'' 1 0 60000] [])))
     = [mkEntry ''T1'' ''HYB'' 2 0 60000]"
  using C1_ingest_promotes_current
    [of "mkStore [mkEntry ''T1'' ''HYB'' 1 0 60000] []"
        "[mkEntry ''T1'' ''HYB'' 1 0 60000]"
        "mkResponse [mkEntry ''T1'' ''HYB'' 2 0 60000]"
        "[mkEntry ''T1'' ''HYB'' 2 0 60000]"
        "mkResponse [mkEntry ''T1'' ''HYB'' 2 0 60000]"
        "ingest (Ok_body (mkResponse [mkEntry ''T1'' ''HYB'' 2 0 60000])) Rejected
              (mkStore [mkEntry ''T1'' ''HYB'' 1 0 60000] [])"
        Rejected
        "ingest (Ok_body (mkResponse [mkEntry ''T1'' ''HYB'' 2 0 60000])) Status_not_ok
         (ingest (Ok_body (mkResponse [mkEntry ''T1'' ''HYB'' 2 0 60000])) Rejected
              (mkStore [mkEntry ''T1'' ''HYB'' 1 0 60000] []))"
        Status_not_ok]
  by (simp add: mkStore_def mkResponse_def)

text \<open>
  The claim as stated fails when \<^verbatim>\<open>GET /baseline\<close> succeeds: the baseline is then
  what the server sent, not the snapshot A.
\<close>

theorem C1_baseline_from_server_counterexample:
  "baselineSchedule (mkStore [mkEntry ''T1'' ''HYB'' 1 0 60000] []) = []
   \<and> schedule (mkStore [mkEntry ''T1'' ''HYB'' 1 0 60000] []) = [mkEntry ''T1'' ''HYB'' 1 0 60000]
   \<and> baselineSchedule
        (ingest (Ok_body (mkResponse [mkEntry ''T1'' ''HYB'' 2 0 60000]))
                (Ok_body [mkEntry ''T1'' ''HYB'' 3 0 60000])
                (mkStore [mkEntry ''T1'' ''HYB'' 1 0 60000] []))
      \<noteq> [mkEntry ''T1'' ''HYB'' 1 0 60000]"
  by (simp add: ingest_def fetchSchedule_def fetchBaseline_def promote_def Let_def mkStore_def
      mkEntry_def mkResponse_def)

text \<open>
  Claim C2. The routine poll replaces a non-empty baseline: the tick reads the snapshots of the
  first render, finds no baseline there, requests the server baseline and stores it. Here
  the store holds a baseline on platform 1 and the server sends one on platform 3.
\<close>

theorem C2_poll_replaces_baseline:
  "baselineSchedule (mkStore [mkEntry ''T1'' ''HYB'' 2 0 60000] [mkEntry ''T1'' ''HYB'' 1 0 60000])
      = [mkEntry ''T1'' ''HYB'' 1 0 60000]
   \<and> baselineSchedule
        (pollTick (Ok_body (mkResponse [mkEntry ''T1'' ''HYB'' 2 0 60000]))
                  (Ok_body [mkEntry ''T1'' ''HYB'' 3 0 60000])
                  (mkStore [mkEntry ''T1'' ''HYB'' 2 0 60000] [mkEntry ''T1'' ''HYB'' 1 0 60000]))
      = [mkEntry ''T1'' ''HYB'' 3 0 60000]"
  by (simp add: pollTick_def fetchSchedule_def fetchBaseline_def promote_def Let_def mkStore_def
      mkEntry_def mkResponse_def)

section \<open>Properties of the override impact estimator\<close>

text \<open>
  Claim C4. As amended: the estimator always returns (it has no exceptional outcome), and it
  returns null exactly when the train has no entry in the current snapshot, the train is
  unknown, the train has no scheduled arrival, the simulation request is rejected (server
  unreachable) or its body cannot be used. In every other case, a status that is not OK and
  a body without impact included, the result is an object.
\<close>

theorem C4_null_exactly_when:
  "calculateDelayImpact trains sch trainId newPlatform simReply = None \<longleftrightarrow>
     find (\<lambda>s. train_id s = trainId) sch = None
     \<or> getTrain trains trainId = None
     \<or> (\<exists>t. getTrain trains trainId = Some t \<and> scheduled_arrival t = None)
     \<or> simReply = Rejected \<or> simReply = Body_unusable"
  by (auto simp: calculateDelayImpact_def Let_def split: option.splits Reply.splits)

text \<open>A server that answers with an error status: the local fallback gives a result.\<close>

theorem C4_null_exactly_when_witness:
  "calculateDelayImpact [mkTrain ''T1'' (Some 0) (Some 60000)] [mkEntry ''T1'' ''HYB'' 1 0 60000]
        ''T1'' 2 Status_not_ok \<noteq> None"
  using C4_null_exactly_when
    [of "[mkTrain ''T1'' (Some 0) (Some 60000)]" "[mkEntry ''T1'' ''HYB'' 1 0 60000]" "''T1''" 2
        Status_not_ok]
  by (simp add: getTrain_def mkEntry_def mkTrain_def)

text \<open>
  The claim as stated fails when the server is unreachable: train and entry exist and
  the estimator returns null, from its \<^verbatim>\<open>catch\<close> block.
\<close>

theorem C4_unreachable_server_counterexample:
  "train_id (mkEntry ''T1'' ''HYB'' 1 0 60000) = ''T1''
   \<and> getTrain [mkTrain ''T1'' (Some 0) (Some 60000)] ''T1'' = Some (mkTrain ''T1'' (Some 0) (Some 60000))
   \<and> calculateDelayImpact [mkTrain ''T1'' (Some 0) (Some 60000)] [mkEntry ''T1'' ''HYB'' 1 0 60000]
        ''T1'' 2 Rejected = None"
  by (simp add: calculateDelayImpact_def getTrain_def mkEntry_def mkTrain_def)

text \<open>
  Claim C5. As amended: in the fallback path the additional delay is 3 minutes times the number
  of entries of other trains at the same station and on the target platform, whatever their
  times, and the predicted delay is the current delay plus the additional delay; with
  exactly one such entry the difference is 3.
\<close>

theorem C5_fallback_counts_co_platform_entries:
  assumes "find (\<lambda>s. train_id s = trainId) sch = Some cur"
    and "getTrain trains trainId = Some t"
    and "scheduled_arrival t = Some sa"
    and "simReply = Status_not_ok \<or> simReply = Ok_body None"
    and "n = length (filter (\<lambda>s. station_id s = station_id cur \<and> assigned_platform s = newPlatform
                                  \<and> train_id s \<noteq> trainId) sch)"
  shows "\<exists>r. calculateDelayImpact trains sch trainId newPlatform simReply = Some r
           \<and> difference r = 3 * of_nat n
           \<and> current r = max 0 (of_int (actual_arrival cur - sa) / 60000)
           \<and> predicted r = current r + difference r
           \<and> (n = 1 \<longrightarrow> difference r = 3)"
  using assms
  by (auto simp: calculateDelayImpact_def conflictingTrains_def Let_def)

text \<open>One other train on the target platform; the train itself is two minutes late.\<close>

theorem C5_fallback_counts_co_platform_entries_witness:
  "calculateDelayImpact [mkTrain ''T1'' (Some 0) (Some 60000)]
          [mkEntry ''T1'' ''HYB'' 1 120000 180000, mkEntry ''T2'' ''HYB'' 2 120000 180000]
          ''T1'' 2 Status_not_ok
     = Some \<lparr> current = 2, predicted = 5, difference = 3 \<rparr>"
  using C5_fallback_counts_co_platform_entries
    [of "''T1''" "[mkEntry ''T1'' ''HYB'' 1 120000 180000, mkEntry ''T2'' ''HYB'' 2 120000 180000]"
        "mkEntry ''T1'' ''HYB'' 1 120000 180000" "[mkTrain ''T1'' (Some 0) (Some 60000)]"
        "mkTrain ''T1'' (Some 0) (Some 60000)" 0 Status_not_ok 1 2]
  by (auto simp: getTrain_def mkEntry_def mkTrain_def)

text \<open>
  The claim as stated fails for an entry on the target platform two hours later: its
  occupancy does not overlap, and it still adds 3 minutes.
\<close>

theorem C5_no_overlap_test_counterexample:
  "map_option difference
     (calculateDelayImpact [mkTrain ''T1'' (Some 0) (Some 60000)]
        [mkEntry ''T1'' ''HYB'' 1 0 60000, mkEntry ''T2'' ''HYB'' 2 7200000 7260000]
        ''T1'' 2 Status_not_ok) = Some 3
   \<and> spec_additionalDelay
        [mkEntry ''T1'' ''HYB'' 1 0 60000, mkEntry ''T2'' ''HYB'' 2 7200000 7260000]
        (mkEntry ''T1'' ''HYB'' 1 0 60000) ''T1'' 2 = 0"
  by (simp add: calculateDelayImpact_def conflictingTrains_def getTrain_def mkEntry_def mkTrain_def
      spec_additionalDelay_def spec_overlap_def Let_def)

section \<open>Properties of the position interpolator\<close>

lemma movingDot_status: "status (fst (movingDot trains nowMs rnd k tid cur nx a b)) = Moving"
  by (simp add: movingDot_def Let_def)

lemma movingDot_id: "id_dot (fst (movingDot trains nowMs rnd k tid cur nx a b)) = tid"
  by (simp add: movingDot_def Let_def)

lemma stationDot_id: "id_dot (stationDot trains nowMs tid cur n) = tid"
  by (simp add: stationDot_def Let_def)

lemma walk_None_last:
  "es \<noteq> [] \<Longrightarrow> fst (walk trains ns nowMs rnd k tid es) = None \<Longrightarrow>
     nodeFor ns (station_id (last es)) = None"
proof (induction es)
  case Nil
  then show ?case by simp
next
  case (Cons cur rest)
  show ?case
  proof (cases rest)
    case Nil
    with Cons.prems show ?thesis by (simp split: option.splits)
  next
    case (Cons nx rest')
    with Cons.prems have "fst (walk trains ns nowMs rnd k tid rest) = None"
      by (auto split: option.splits if_splits prod.splits)
    with Cons.IH Cons show ?thesis by simp
  qed
qed

lemma walk_id:
  "walk trains ns nowMs rnd k tid es = (Some d, k') \<Longrightarrow> id_dot d = tid"
proof (induction es)
  case Nil
  then show ?case by simp
next
  case (Cons cur rest)
  then show ?case
    by (cases rest)
       (auto simp: stationDot_id movingDot_def Let_def split: option.splits if_splits prod.splits)
qed

text \<open>The loop's dot, whenever there is one, never comes from the last-station branch.\<close>

lemma dotForTrain_walk:
  "fst (dotForTrain trains ns nowMs rnd k tid es) = fst (walk trains ns nowMs rnd k tid es)"
proof (cases "es = []")
  case True
  then show ?thesis by (simp add: dotForTrain_def)
next
  case False
  show ?thesis
  proof (cases "walk trains ns nowMs rnd k tid es")
    case (Pair r k')
    show ?thesis
    proof (cases r)
      case None
      with Pair False walk_None_last [of es trains ns nowMs rnd k tid]
      show ?thesis by (simp add: dotForTrain_def)
    next
      case (Some d)
      with Pair False show ?thesis by (simp add: dotForTrain_def)
    qed
  qed
qed

lemma movingDot_placement:
  "placement (fst (movingDot trains nowMs rnd1 k1 tid cur nx a b)) =
   placement (fst (movingDot trains nowMs rnd2 k2 tid cur nx a b))"
  by (simp add: movingDot_def placement_def Let_def)

lemma walk_step:
  "walk trains ns nowMs rnd k tid (cur # rest) =
     (case stationChoice ns nowMs cur rest of
        Some n \<Rightarrow> (Some (stationDot trains nowMs tid cur n), k)
      | None \<Rightarrow>
          (case movingChoice ns nowMs cur rest of
             Some (nx, a, b) \<Rightarrow>
               (Some (fst (movingDot trains nowMs rnd k tid cur nx a b)),
                snd (movingDot trains nowMs rnd k tid cur nx a b))
           | None \<Rightarrow> walk trains ns nowMs rnd k tid rest))"
  by (cases rest)
     (simp_all add: stationChoice_def movingChoice_def split: option.splits prod.splits)

lemma walk_placement:
  "map_option placement (fst (walk trains ns nowMs rnd1 k1 tid es)) =
   map_option placement (fst (walk trains ns nowMs rnd2 k2 tid es))"
proof (induction es)
  case Nil
  show ?case by simp
next
  case (Cons cur rest)
  show ?case
  proof (cases "stationChoice ns nowMs cur rest")
    case (Some n)
    then show ?thesis by (simp only: walk_step option.case fst_conv)
  next
    case None
    note sc = this
    show ?thesis
    proof (cases "movingChoice ns nowMs cur rest")
      case None
      with sc Cons.IH show ?thesis by (simp only: walk_step option.case)
    next
      case (Some c)
      obtain nx a b where c: "c = (nx, a, b)" by (cases c)
      with sc Some movingDot_placement [of trains nowMs rnd1 k1 tid cur nx a b rnd2 k2]
      show ?thesis by (simp only: walk_step option.case prod.case fst_conv option.map)
    qed
  qed
qed

lemma fallbackDots_placement:
  "map placement (fallbackDots trains ns nowMs rnd1 k1 segs) =
   map placement (fallbackDots trains ns nowMs rnd2 k2 segs)"
proof (induction segs arbitrary: k1 k2)
  case Nil
  show ?case by simp
next
  case (Cons seg segs)
  obtain tid es where seg: "seg = (tid, es)" by (cases seg)
  obtain r1 j1 where d1: "dotForTrain trains ns nowMs rnd1 k1 tid es = (r1, j1)"
    by (cases "dotForTrain trains ns nowMs rnd1 k1 tid es")
  obtain r2 j2 where d2: "dotForTrain trains ns nowMs rnd2 k2 tid es = (r2, j2)"
    by (cases "dotForTrain trains ns nowMs rnd2 k2 tid es")
  have "map_option placement r1 = map_option placement r2"
    using walk_placement [of trains ns nowMs rnd1 k1 tid es rnd2 k2]
      dotForTrain_walk [of trains ns nowMs rnd1 k1 tid es]
      dotForTrain_walk [of trains ns nowMs rnd2 k2 tid es] d1 d2
    by simp
  with seg d1 d2 Cons.IH [of j1 j2] show ?case
    by (cases r1; cases r2) simp_all
qed

lemma fallbackDots_member:
  "d \<in> set (fallbackDots trains ns nowMs rnd k segs) \<Longrightarrow>
     \<exists>tid es j. (tid, es) \<in> set segs \<and> fst (dotForTrain trains ns nowMs rnd j tid es) = Some d"
proof (induction segs arbitrary: k)
  case Nil
  then show ?case by simp
next
  case (Cons seg segs)
  obtain tid es where seg: "seg = (tid, es)" by (cases seg)
  obtain r j where dj: "dotForTrain trains ns nowMs rnd k tid es = (r, j)"
    by (cases "dotForTrain trains ns nowMs rnd k tid es")
  show ?case
  proof (cases "r = Some d")
    case True
    have "(tid, es) \<in> set (seg # segs)" using seg by simp
    moreover have "fst (dotForTrain trains ns nowMs rnd k tid es) = Some d"
      using dj True by simp
    ultimately show ?thesis by blast
  next
    case False
    have "d \<in> set (fallbackDots trains ns nowMs rnd j segs)"
    proof (cases r)
      case None
      with Cons.prems seg dj show ?thesis by simp
    next
      case (Some d')
      with False have "d' \<noteq> d" by simp
      with Cons.prems seg dj Some show ?thesis by simp
    qed
    from Cons.IH [OF this] obtain tid' es' j'
      where "(tid', es') \<in> set segs" "fst (dotForTrain trains ns nowMs rnd j' tid' es') = Some d"
      by blast
    then have "(tid', es') \<in> set (seg # segs)" by simp
    with \<open>fst (dotForTrain trains ns nowMs rnd j' tid' es') = Some d\<close> show ?thesis by blast
  qed
qed

lemma fallbackDots_present:
  "(tid, es) \<in> set segs \<Longrightarrow>
   (\<And>j. \<exists>d. fst (dotForTrain trains ns nowMs rnd j tid es) = Some d \<and> P d) \<Longrightarrow>
     \<exists>d \<in> set (fallbackDots trains ns nowMs rnd k segs). P d"
proof (induction segs arbitrary: k)
  case Nil
  then show ?case by simp
next
  case (Cons seg segs)
  obtain tid' es' where seg: "seg = (tid', es')" by (cases seg)
  obtain r j where dj: "dotForTrain trains ns nowMs rnd k tid' es' = (r, j)"
    by (cases "dotForTrain trains ns nowMs rnd k tid' es'")
  show ?case
  proof (cases "seg = (tid, es)")
    case True
    with seg have eq: "tid' = tid" "es' = es" by simp_all
    from Cons.prems(2) [of k] obtain d where "fst (dotForTrain trains ns nowMs rnd k tid es) = Some d" "P d"
      by blast
    with dj eq seg show ?thesis by auto
  next
    case False
    with Cons.prems(1) have "(tid, es) \<in> set segs" by simp
    from Cons.IH [OF this Cons.prems(2), of j] obtain d
      where "d \<in> set (fallbackDots trains ns nowMs rnd j segs)" "P d" by blast
    with seg dj show ?thesis by (cases r) auto
  qed
qed

lemma set_add_set: "set (set_add x xs) = insert x (set xs)"
  by (auto simp: set_add_def)

lemma fold_set_add_set:
  "set (fold (\<lambda>e. set_add (train_id e)) sch acc) = set acc \<union> train_id ` set sch"
  by (induction sch arbitrary: acc) (auto simp: set_add_set)

lemma trainIds_set: "set (trainIds sch) = train_id ` set sch"
  by (simp add: trainIds_def fold_set_add_set)

lemma itinerary_set: "set (itinerary sch tid) = {e \<in> set sch. train_id e = tid}"
  by (auto simp: itinerary_def)

lemma trainSegments_member:
  "(tid, es) \<in> set (trainSegments sch) \<longleftrightarrow> tid \<in> train_id ` set sch \<and> es = itinerary sch tid"
  by (auto simp: trainSegments_def trainIds_set)

lemma trainDots_fallback_member:
  assumes "d \<in> set (trainDots trains ns [] sch nowMs rnd)"
  shows "\<exists>j k'. walk trains ns nowMs rnd j (id_dot d) (itinerary sch (id_dot d)) = (Some d, k')"
proof -
  from assms have "d \<in> set (fallbackDots trains ns nowMs rnd 0 (trainSegments sch))"
    by (simp add: trainDots_def)
  from fallbackDots_member [OF this] obtain tid es j
    where seg: "(tid, es) \<in> set (trainSegments sch)"
      and dt: "fst (dotForTrain trains ns nowMs rnd j tid es) = Some d"
    by blast
  from seg have es: "es = itinerary sch tid" by (simp add: trainSegments_member)
  from dt have "fst (walk trains ns nowMs rnd j tid es) = Some d"
    by (simp add: dotForTrain_walk)
  then obtain k' where w: "walk trains ns nowMs rnd j tid es = (Some d, k')"
    by (cases "walk trains ns nowMs rnd j tid es") simp
  from walk_id [OF w] have "id_dot d = tid" .
  with w es show ?thesis by blast
qed

lemma walk_two:
  assumes "actual_departure eA < nowMs" and "nowMs \<le> actual_arrival eB"
    and "nodeFor ns (station_id eA) = Some a" and "nodeFor ns (station_id eB) = Some b"
  shows "fst (walk trains ns nowMs rnd j tid [eA, eB]) =
           Some (fst (movingDot trains nowMs rnd j tid eA eB a b))"
  using assms by (simp split: prod.splits)

lemma movingDot_mid:
  assumes "actual_arrival eB = actual_departure eA + 600000"
    and "nowMs = actual_departure eA + 300000"
    and "node_x a = Some xa" and "node_y a = Some ya"
    and "node_x b = Some xb" and "node_y b = Some yb"
  shows "dot_x (fst (movingDot trains nowMs rnd j tid eA eB a b)) = Some ((xa + xb) / 2)
       \<and> dot_y (fst (movingDot trains nowMs rnd j tid eA eB a b)) = Some ((ya + yb) / 2)
       \<and> status (fst (movingDot trains nowMs rnd j tid eA eB a b)) = Moving
       \<and> id_dot (fst (movingDot trains nowMs rnd j tid eA eB a b)) = tid"
  using assms by (simp add: movingDot_def Let_def lerp_def field_simps)

lemma tableNodes_known:
  "\<forall>s \<in> set sts. stationPositions (id_station s) \<noteq> None \<Longrightarrow>
     tableNodes rnd1 k1 sts = tableNodes rnd2 k2 sts"
  by (induction sts arbitrary: k1 k2) auto

lemmas demo_defs = demoItinerary_def demoNodes_def mkEntry_def mkTrain_def mkStation_def mkStore_def
  mkResponse_def rndLow_def rndHalf_def

lemma demoNodes_eval:
  "demoNodes =
     [\<lparr> id_node = ''HYB'', node_x = Some 200, node_y = Some 160, node_platforms = Some 4 \<rparr>,
      \<lparr> id_node = ''SC'', node_x = Some 500, node_y = Some 100, node_platforms = Some 6 \<rparr>]"
  by (simp add: demo_defs nodes_def hasGeo_def stationPositions_def)

lemma demo_segments:
  "trainSegments demoItinerary = [(''T1'', demoItinerary)]"
  by (simp add: trainSegments_def trainIds_def itinerary_def set_add_def demo_defs)

lemma demo_dots_low:
  "map placement (trainDots [] demoNodes [] demoItinerary 300000 rndLow) = [(''T1'', Some 350, Some 130, Moving)]"
  "map trackNumber (trainDots [] demoNodes [] demoItinerary 300000 rndLow) = [Some 1]"
  "map trackNumber (trainDots [] demoNodes [] demoItinerary 300000 rndHalf) = [Some 2]"
  unfolding trainDots_def demo_segments demoNodes_eval
  by (simp_all add: demoItinerary_def mkEntry_def dotForTrain_def nodeFor_def movingDot_def Let_def lerp_def placement_def findRoute_def routes_def rndLow_def rndHalf_def)

lemma demo_waiting_dots:
  "trainDots [mkTrain ''T1'' (Some 0) (Some 0)] demoNodes [] [mkEntry ''T1'' ''HYB'' 1 0 1000000] 0 rndLow
     = [demoWaiting]"
  unfolding trainDots_def demoNodes_eval demoWaiting_def
  by (simp add: trainSegments_def trainIds_def itinerary_def set_add_def mkEntry_def
      dotForTrain_def nodeFor_def)

lemma demoWaiting_status: "status demoWaiting = Waiting"
  by (simp add: demoWaiting_def stationDot_def stationStatus_def isDelayed_def getTrain_def
      mkTrain_def mkEntry_def Let_def)

lemma demo_itinerary: "itinerary demoItinerary ''T1'' = demoItinerary"
  by (simp add: itinerary_def demoItinerary_def mkEntry_def)

lemma demo_nodeFor:
  "nodeFor demoNodes ''HYB'' =
     Some \<lparr> id_node = ''HYB'', node_x = Some 200, node_y = Some 160, node_platforms = Some 4 \<rparr>"
  "nodeFor demoNodes ''SC'' =
     Some \<lparr> id_node = ''SC'', node_x = Some 500, node_y = Some 100, node_platforms = Some 6 \<rparr>"
  by (simp_all add: demoNodes_eval nodeFor_def)

lemma walk_skip:
  "\<not> (nowMs \<le> actual_departure c \<and> nodeFor ns (station_id c) \<noteq> None) \<Longrightarrow>
   \<not> (actual_departure c \<le> nowMs \<and> nowMs \<le> actual_arrival nx
        \<and> nodeFor ns (station_id c) \<noteq> None \<and> nodeFor ns (station_id nx) \<noteq> None) \<Longrightarrow>
   walk trains ns nowMs rnd k tid (c # nx # es) = walk trains ns nowMs rnd k tid (nx # es)"
  by (cases "nodeFor ns (station_id c)"; cases "nodeFor ns (station_id nx)") auto

lemma walk_passes:
  "passes ns nowMs (pre @ [cur]) \<Longrightarrow>
   walk trains ns nowMs rnd k tid (pre @ cur # rest) = walk trains ns nowMs rnd k tid (cur # rest)"
proof (induction pre)
  case Nil
  show ?case by simp
next
  case (Cons c pre)
  show ?case
  proof (cases pre)
    case Nil
    with Cons.prems show ?thesis
      using walk_skip [of nowMs c ns cur trains rnd k tid rest] by simp
  next
    case (Cons nx pre')
    with Cons.prems Cons.IH show ?thesis
      using walk_skip [of nowMs c ns nx trains rnd k tid "pre' @ cur # rest"] by simp
  qed
qed

lemma walk_station:
  "nowMs \<le> actual_departure cur \<or> rest = [] \<Longrightarrow> nodeFor ns (station_id cur) = Some n \<Longrightarrow>
   walk trains ns nowMs rnd k tid (cur # rest) = (Some (stationDot trains nowMs tid cur n), k)"
  by auto

lemma stationDot_fields:
  "dot_x (stationDot trains nowMs tid cur n) = node_x n"
  "dot_y (stationDot trains nowMs tid cur n) = node_y n"
  "status (stationDot trains nowMs tid cur n) = stationStatus trains nowMs cur"
  by (simp_all add: stationDot_def Let_def)

lemma stationStatus_cases:
  "stationStatus trains nowMs cur \<noteq> Moving"
  "stationStatus trains nowMs cur = Delayed \<longleftrightarrow>
     (\<exists>t sa. getTrain trains (train_id cur) = Some t \<and> scheduled_arrival t = Some sa
             \<and> actual_arrival cur - sa > 120000)"
  "stationStatus trains nowMs cur \<noteq> Delayed \<Longrightarrow>
     (stationStatus trains nowMs cur = Waiting \<longleftrightarrow> nowMs < actual_departure cur - 300000)
   \<and> (stationStatus trains nowMs cur = Stopped \<longleftrightarrow> \<not> nowMs < actual_departure cur - 300000)"
  by (auto simp: stationStatus_def isDelayed_def split: option.splits)

lemma passes_Cons:
  "rest0 \<noteq> [] \<Longrightarrow> rest0 = pre @ cur # rest \<Longrightarrow>
   \<not> (nowMs \<le> actual_departure c \<and> nodeFor ns (station_id c) \<noteq> None) \<Longrightarrow>
   \<not> (actual_departure c \<le> nowMs \<and> nowMs \<le> actual_arrival (hd rest0)
        \<and> nodeFor ns (station_id c) \<noteq> None \<and> nodeFor ns (station_id (hd rest0)) \<noteq> None) \<Longrightarrow>
   passes ns nowMs (pre @ [cur]) \<Longrightarrow> passes ns nowMs ((c # pre) @ [cur])"
  by (cases pre) auto

lemma walk_placed_decomp:
  "walk trains ns nowMs rnd k tid es = (Some d, k') \<Longrightarrow>
     \<exists>pre cur rest. es = pre @ cur # rest \<and> passes ns nowMs (pre @ [cur])
       \<and> ((\<exists>n. (nowMs \<le> actual_departure cur \<or> rest = [])
                \<and> nodeFor ns (station_id cur) = Some n
                \<and> d = stationDot trains nowMs tid cur n)
          \<or> (\<exists>nx more a b. rest = nx # more
                \<and> actual_departure cur \<le> nowMs \<and> nowMs \<le> actual_arrival nx
                \<and> nodeFor ns (station_id cur) = Some a \<and> nodeFor ns (station_id nx) = Some b
                \<and> d = fst (movingDot trains nowMs rnd k tid cur nx a b)))"
proof (induction es)
  case Nil
  then show ?case by simp
next
  case (Cons c rest0)
  show ?case
  proof (cases "stationChoice ns nowMs c rest0")
    case (Some n)
    then have "(nowMs \<le> actual_departure c \<or> rest0 = []) \<and> nodeFor ns (station_id c) = Some n"
      by (simp add: stationChoice_def split: if_splits)
    moreover from Some Cons.prems have "d = stationDot trains nowMs tid c n"
      by (simp add: walk_step del: walk.simps)
    moreover have "passes ns nowMs ([] @ [c])" by simp
    ultimately show ?thesis by (intro exI [of _ "[]"] exI [of _ c] exI [of _ rest0]) auto
  next
    case None
    note sc = this
    show ?thesis
    proof (cases "movingChoice ns nowMs c rest0")
      case (Some m)
      obtain nx a b where m: "m = (nx, a, b)" by (cases m)
      from Some m obtain more where mv: "rest0 = nx # more"
          "actual_departure c \<le> nowMs" "nowMs \<le> actual_arrival nx"
          "nodeFor ns (station_id c) = Some a" "nodeFor ns (station_id nx) = Some b"
        by (auto simp: movingChoice_def split: list.splits if_splits option.splits)
      from sc Some m Cons.prems have "d = fst (movingDot trains nowMs rnd k tid c nx a b)"
        by (simp add: walk_step del: walk.simps)
      moreover have "passes ns nowMs ([] @ [c])" by simp
      ultimately show ?thesis using mv
        by (intro exI [of _ "[]"] exI [of _ c] exI [of _ rest0]) auto
    next
      case None
      with sc Cons.prems have w: "walk trains ns nowMs rnd k tid rest0 = (Some d, k')"
        by (simp add: walk_step del: walk.simps)
      then have ne: "rest0 \<noteq> []" by auto
      from Cons.IH [OF w] obtain pre cur rest
        where dec: "rest0 = pre @ cur # rest" and p: "passes ns nowMs (pre @ [cur])"
          and alt: "(\<exists>n. (nowMs \<le> actual_departure cur \<or> rest = [])
                \<and> nodeFor ns (station_id cur) = Some n
                \<and> d = stationDot trains nowMs tid cur n)
          \<or> (\<exists>nx more a b. rest = nx # more
                \<and> actual_departure cur \<le> nowMs \<and> nowMs \<le> actual_arrival nx
                \<and> nodeFor ns (station_id cur) = Some a \<and> nodeFor ns (station_id nx) = Some b
                \<and> d = fst (movingDot trains nowMs rnd k tid cur nx a b))"
        by blast
      have c1: "\<not> (nowMs \<le> actual_departure c \<and> nodeFor ns (station_id c) \<noteq> None)"
        using sc by (auto simp: stationChoice_def)
      have c2: "\<not> (actual_departure c \<le> nowMs \<and> nowMs \<le> actual_arrival (hd rest0)
        \<and> nodeFor ns (station_id c) \<noteq> None \<and> nodeFor ns (station_id (hd rest0)) \<noteq> None)"
        using None ne by (cases rest0) (auto simp: movingChoice_def split: if_splits option.splits)
      have "passes ns nowMs ((c # pre) @ [cur])"
        by (rule passes_Cons [OF ne dec c1 c2 p])
      moreover have "c # rest0 = (c # pre) @ cur # rest" using dec by simp
      ultimately show ?thesis using alt by blast
    qed
  qed
qed

lemma demoStops_itinerary:
  "itinerary demoStops ''T1'' = [mkEntry ''T1'' ''HYB'' 1 0 0] @ mkEntry ''T1'' ''SC'' 1 600000 2000000 # []"
  by (simp add: itinerary_def demoStops_def mkEntry_def)

lemma demoStops_passes:
  "passes demoNodes 700000 ([mkEntry ''T1'' ''HYB'' 1 0 0] @ [mkEntry ''T1'' ''SC'' 1 600000 2000000])"
  by (simp add: mkEntry_def)

lemma demoStops_ids:
  "map id_dot (trainDots [mkTrain ''T1'' (Some 600000) None] demoNodes [] demoStops 700000 rndLow)
     = [''T1'']"
  unfolding trainDots_def demoNodes_eval
  by (simp add: trainSegments_def trainIds_def itinerary_def set_add_def demoStops_def mkEntry_def
      dotForTrain_def nodeFor_def stationDot_def Let_def)

text \<open>
  Claim C7. As amended: in schedule-fallback mode, when the itinerary loop of a train
  reaches an entry (no earlier round has placed the train), the train has not yet left
  that entry or the entry is its last, and the station of the entry has a node, then the
  train is drawn, every dot drawn for it is at that node and is not moving, and its status
  is delayed if and only if the train is known, has a scheduled arrival, and the actual
  arrival of the entry exceeds it by more than two minutes; otherwise it is waiting if and
  only if more than five minutes remain before the actual departure of the entry, and
  stopped otherwise. By \<open>walk_placed_decomp\<close> every dot of the loop is drawn either in
  this way or between two stations, and by \<open>dotForTrain_walk\<close> the branch after the
  loop draws nothing.
\<close>

theorem C7_station_status:
  assumes it: "itinerary sch tid = pre @ cur # rest"
    and pass: "passes ns nowMs (pre @ [cur])"
    and here: "nowMs \<le> actual_departure cur \<or> rest = []"
    and node: "nodeFor ns (station_id cur) = Some n"
  shows "(\<exists>d \<in> set (trainDots trains ns [] sch nowMs rnd). id_dot d = tid)
       \<and> (\<forall>d \<in> set (trainDots trains ns [] sch nowMs rnd). id_dot d = tid \<longrightarrow>
             dot_x d = node_x n \<and> dot_y d = node_y n \<and> status d \<noteq> Moving
             \<and> (status d = Delayed \<longleftrightarrow>
                   (\<exists>t sa. getTrain trains (train_id cur) = Some t \<and> scheduled_arrival t = Some sa
                           \<and> actual_arrival cur - sa > 120000))
             \<and> (status d \<noteq> Delayed \<longrightarrow>
                   (status d = Waiting \<longleftrightarrow> nowMs < actual_departure cur - 300000)
                 \<and> (status d = Stopped \<longleftrightarrow> \<not> nowMs < actual_departure cur - 300000)))"
proof -
  have w: "\<And>j. walk trains ns nowMs rnd j tid (itinerary sch tid) =
                (Some (stationDot trains nowMs tid cur n), j)"
    unfolding it walk_passes [OF pass] by (rule walk_station [OF here node])
  have "cur \<in> set (itinerary sch tid)" using it by simp
  then have "tid \<in> train_id ` set sch" by (auto simp: itinerary_set)
  then have seg: "(tid, itinerary sch tid) \<in> set (trainSegments sch)"
    by (simp add: trainSegments_member)
  have "\<exists>d \<in> set (fallbackDots trains ns nowMs rnd 0 (trainSegments sch)). id_dot d = tid"
  proof (rule fallbackDots_present [OF seg])
    fix j
    show "\<exists>d. fst (dotForTrain trains ns nowMs rnd j tid (itinerary sch tid)) = Some d
              \<and> id_dot d = tid"
      using w [of j] by (simp add: dotForTrain_walk stationDot_id)
  qed
  then have ex: "\<exists>d \<in> set (trainDots trains ns [] sch nowMs rnd). id_dot d = tid"
    by (simp add: trainDots_def)
  have all: "\<forall>d \<in> set (trainDots trains ns [] sch nowMs rnd). id_dot d = tid \<longrightarrow>
             dot_x d = node_x n \<and> dot_y d = node_y n \<and> status d \<noteq> Moving
             \<and> (status d = Delayed \<longleftrightarrow>
                   (\<exists>t sa. getTrain trains (train_id cur) = Some t \<and> scheduled_arrival t = Some sa
                           \<and> actual_arrival cur - sa > 120000))
             \<and> (status d \<noteq> Delayed \<longrightarrow>
                   (status d = Waiting \<longleftrightarrow> nowMs < actual_departure cur - 300000)
                 \<and> (status d = Stopped \<longleftrightarrow> \<not> nowMs < actual_departure cur - 300000))"
  proof (intro ballI impI)
    fix d
    assume d: "d \<in> set (trainDots trains ns [] sch nowMs rnd)" and i: "id_dot d = tid"
    from trainDots_fallback_member [OF d] i obtain j k'
      where "walk trains ns nowMs rnd j tid (itinerary sch tid) = (Some d, k')" by auto
    with w [of j] have eq: "d = stationDot trains nowMs tid cur n" by simp
    show "dot_x d = node_x n \<and> dot_y d = node_y n \<and> status d \<noteq> Moving
             \<and> (status d = Delayed \<longleftrightarrow>
                   (\<exists>t sa. getTrain trains (train_id cur) = Some t \<and> scheduled_arrival t = Some sa
                           \<and> actual_arrival cur - sa > 120000))
             \<and> (status d \<noteq> Delayed \<longrightarrow>
                   (status d = Waiting \<longleftrightarrow> nowMs < actual_departure cur - 300000)
                 \<and> (status d = Stopped \<longleftrightarrow> \<not> nowMs < actual_departure cur - 300000))"
      unfolding eq stationDot_fields
      using stationStatus_cases [of trains nowMs cur] by blast
  qed
  from ex all show ?thesis by blast
qed

text \<open>
  A train that has left HYB and reached SC, its last entry, on time and long before the
  departure of that entry.
\<close>

theorem C7_station_status_witness:
  "itinerary demoStops ''T1'' =
     [mkEntry ''T1'' ''HYB'' 1 0 0] @ mkEntry ''T1'' ''SC'' 1 600000 2000000 # []
   \<and> passes demoNodes 700000 ([mkEntry ''T1'' ''HYB'' 1 0 0] @ [mkEntry ''T1'' ''SC'' 1 600000 2000000])
   \<and> map placement (trainDots [mkTrain ''T1'' (Some 600000) None] demoNodes [] demoStops 700000 rndLow)
       = [(''T1'', Some 500, Some 100, Waiting)]"
proof -
  have node: "nodeFor demoNodes (station_id (mkEntry ''T1'' ''SC'' 1 600000 2000000)) =
                Some \<lparr> id_node = ''SC'', node_x = Some 500, node_y = Some 100,
                       node_platforms = Some 6 \<rparr>"
    by (simp add: mkEntry_def demo_nodeFor)
  have here: "(700000::int) \<le> actual_departure (mkEntry ''T1'' ''SC'' 1 600000 2000000) \<or>
              ([]::ScheduleEntry list) = []"
    by simp
  from demoStops_ids obtain d
    where d: "trainDots [mkTrain ''T1'' (Some 600000) None] demoNodes [] demoStops 700000 rndLow = [d]"
      and i: "id_dot d = ''T1''"
    by (auto simp: map_eq_Cons_conv)
  from C7_station_status [OF demoStops_itinerary demoStops_passes here node,
      of "[mkTrain ''T1'' (Some 600000) None]" rndLow] d i
  have "dot_x d = Some 500 \<and> dot_y d = Some 100 \<and> status d = Waiting"
    by (simp add: getTrain_def mkTrain_def mkEntry_def)
  with d i demoStops_itinerary demoStops_passes show ?thesis
    by (simp add: placement_def)
qed

text \<open>
  The claim as stated fails: the train is waiting although its scheduled departure has
  been reached; the five minutes are measured against the departure time of the entry.
\<close>

theorem C7_scheduled_departure_counterexample:
  "map status (trainDots [mkTrain ''T1'' (Some 0) (Some 0)] demoNodes []
                 [mkEntry ''T1'' ''HYB'' 1 0 1000000] 0 rndLow) = [Waiting]
   \<and> scheduled_departure (mkTrain ''T1'' (Some 0) (Some 0)) = Some 0
   \<and> \<not> ((0::int) < 0 - 300000)"
proof -
  have "map status (trainDots [mkTrain ''T1'' (Some 0) (Some 0)] demoNodes []
                 [mkEntry ''T1'' ''HYB'' 1 0 1000000] 0 rndLow) = [Waiting]"
    by (simp add: demo_waiting_dots demoWaiting_status)
  moreover have "scheduled_departure (mkTrain ''T1'' (Some 0) (Some 0)) = Some 0"
    by (simp add: mkTrain_def)
  ultimately show ?thesis by simp
qed

text \<open>
  Claim C6. A train whose sorted itinerary has exactly two entries, leaving station A at T and
  reaching station B at T + 10 minutes, is drawn at T + 5 minutes in schedule-fallback
  mode, and every dot drawn for it is at the midpoint of the nodes of A and B, with status
  moving.
\<close>

theorem C6_midpoint:
  assumes it: "itinerary sch tid = [eA, eB]"
    and arr: "actual_arrival eB = actual_departure eA + 600000"
    and now: "nowMs = actual_departure eA + 300000"
    and na: "nodeFor ns (station_id eA) = Some a" and nb: "nodeFor ns (station_id eB) = Some b"
    and ca: "node_x a = Some xa" "node_y a = Some ya"
    and cb: "node_x b = Some xb" "node_y b = Some yb"
  shows "(\<exists>d \<in> set (trainDots trains ns [] sch nowMs rnd). id_dot d = tid)
       \<and> (\<forall>d \<in> set (trainDots trains ns [] sch nowMs rnd). id_dot d = tid \<longrightarrow>
             dot_x d = Some ((xa + xb) / 2) \<and> dot_y d = Some ((ya + yb) / 2) \<and> status d = Moving)"
proof -
  have lt: "actual_departure eA < nowMs" and le: "nowMs \<le> actual_arrival eB"
    using arr now by simp_all
  have w: "\<And>j. fst (walk trains ns nowMs rnd j tid [eA, eB]) =
                Some (fst (movingDot trains nowMs rnd j tid eA eB a b))"
    by (rule walk_two [OF lt le na nb])
  note mid = movingDot_mid [OF arr now ca cb]
  have "eA \<in> set (itinerary sch tid)" using it by simp
  then have "tid \<in> train_id ` set sch" by (auto simp: itinerary_set)
  then have seg: "(tid, [eA, eB]) \<in> set (trainSegments sch)"
    using it by (simp add: trainSegments_member)
  have "\<exists>d \<in> set (fallbackDots trains ns nowMs rnd 0 (trainSegments sch)). id_dot d = tid"
  proof (rule fallbackDots_present [OF seg])
    fix j
    show "\<exists>d. fst (dotForTrain trains ns nowMs rnd j tid [eA, eB]) = Some d \<and> id_dot d = tid"
      using w [of j] mid [of trains rnd j tid] by (simp add: dotForTrain_walk)
  qed
  then have ex: "\<exists>d \<in> set (trainDots trains ns [] sch nowMs rnd). id_dot d = tid"
    by (simp add: trainDots_def)
  have all: "\<forall>d \<in> set (trainDots trains ns [] sch nowMs rnd). id_dot d = tid \<longrightarrow>
             dot_x d = Some ((xa + xb) / 2) \<and> dot_y d = Some ((ya + yb) / 2) \<and> status d = Moving"
  proof (intro ballI impI)
    fix d
    assume d: "d \<in> set (trainDots trains ns [] sch nowMs rnd)" and i: "id_dot d = tid"
    from trainDots_fallback_member [OF d] i it obtain j k'
      where "walk trains ns nowMs rnd j tid [eA, eB] = (Some d, k')" by auto
    with w [of j] have "d = fst (movingDot trains nowMs rnd j tid eA eB a b)" by simp
    with mid [of trains rnd j tid]
    show "dot_x d = Some ((xa + xb) / 2) \<and> dot_y d = Some ((ya + yb) / 2) \<and> status d = Moving"
      by simp
  qed
  from ex all show ?thesis by blast
qed

text \<open>From HYB at (200, 160) to SC at (500, 100): the dot is at (350, 130).\<close>

theorem C6_midpoint_witness:
  "itinerary demoItinerary ''T1'' = [mkEntry ''T1'' ''HYB'' 1 0 0, mkEntry ''T1'' ''SC'' 1 600000 660000]
   \<and> map placement (trainDots [] demoNodes [] demoItinerary 300000 rndLow)
       = [(''T1'', Some ((200 + 500) / 2), Some ((160 + 100) / 2), Moving)]"
proof -
  have it: "itinerary demoItinerary ''T1'' =
              [mkEntry ''T1'' ''HYB'' 1 0 0, mkEntry ''T1'' ''SC'' 1 600000 660000]"
    by (simp add: demo_itinerary) (simp add: demoItinerary_def)
  have arr: "actual_arrival (mkEntry ''T1'' ''SC'' 1 600000 660000) =
               actual_departure (mkEntry ''T1'' ''HYB'' 1 0 0) + 600000"
    and now: "(300000::int) = actual_departure (mkEntry ''T1'' ''HYB'' 1 0 0) + 300000"
    by (simp_all add: mkEntry_def)
  have na: "nodeFor demoNodes (station_id (mkEntry ''T1'' ''HYB'' 1 0 0)) =
              Some \<lparr> id_node = ''HYB'', node_x = Some 200, node_y = Some 160,
                     node_platforms = Some 4 \<rparr>"
    and nb: "nodeFor demoNodes (station_id (mkEntry ''T1'' ''SC'' 1 600000 660000)) =
              Some \<lparr> id_node = ''SC'', node_x = Some 500, node_y = Some 100,
                     node_platforms = Some 6 \<rparr>"
    by (simp_all add: mkEntry_def demo_nodeFor)
  from demo_dots_low(1) obtain d
    where d: "trainDots [] demoNodes [] demoItinerary 300000 rndLow = [d]"
      and i: "id_dot d = ''T1''"
    by (auto simp: placement_def map_eq_Cons_conv)
  from C6_midpoint [OF it arr now na nb, of 200 160 500 100 "[]" rndLow] d i
  have "dot_x d = Some ((200 + 500) / 2) \<and> dot_y d = Some ((160 + 100) / 2) \<and> status d = Moving"
    by simp
  with d i it show ?thesis by (simp add: placement_def)
qed

text \<open>
  Claim C9. As amended: with the same nodes, positions, schedule and time, two evaluations give
  the same dots in the same order with the same identity, coordinates and status, whatever
  \<^verbatim>\<open>Math.random()\<close> returns; with pushed positions the whole output is the same. The
  station nodes are the same when a station has coordinates or every station is in the built-in
  table. The track number of a moving train, and the node of a station outside the table,
  are results of \<^verbatim>\<open>Math.random()\<close>.
\<close>

theorem C9_determinism_up_to_random:
  "map placement (trainDots trains ns ps sch nowMs rnd1) =
     map placement (trainDots trains ns ps sch nowMs rnd2)
   \<and> (ps \<noteq> [] \<longrightarrow> trainDots trains ns ps sch nowMs rnd1 = trainDots trains ns ps sch nowMs rnd2)
   \<and> (hasGeo stations \<or> (\<forall>s \<in> set stations. stationPositions (id_station s) \<noteq> None) \<longrightarrow>
        nodes rnd1 stations = nodes rnd2 stations)"
proof (intro conjI impI)
  show "map placement (trainDots trains ns ps sch nowMs rnd1) =
        map placement (trainDots trains ns ps sch nowMs rnd2)"
    using fallbackDots_placement [of trains ns nowMs rnd1 0 "trainSegments sch" rnd2 0]
    by (simp add: trainDots_def)
next
  assume "ps \<noteq> []"
  then show "trainDots trains ns ps sch nowMs rnd1 = trainDots trains ns ps sch nowMs rnd2"
    by (simp add: trainDots_def)
next
  assume "hasGeo stations \<or> (\<forall>s \<in> set stations. stationPositions (id_station s) \<noteq> None)"
  then show "nodes rnd1 stations = nodes rnd2 stations"
    using tableNodes_known [of stations rnd1 0 rnd2 0] by (auto simp: nodes_def)
qed

text \<open>The same inputs under two different runs of the random source.\<close>

theorem C9_determinism_up_to_random_witness:
  "map placement (trainDots [] demoNodes [] demoItinerary 300000 rndLow) =
     map placement (trainDots [] demoNodes [] demoItinerary 300000 rndHalf)
   \<and> [demoPosition] \<noteq> []
   \<and> trainDots [mkTrain ''T1'' None None] demoNodes [demoPosition] demoItinerary 300000 rndLow
       = trainDots [mkTrain ''T1'' None None] demoNodes [demoPosition] demoItinerary 300000 rndHalf
   \<and> stationPositions ''HYB'' \<noteq> None \<and> stationPositions ''SC'' \<noteq> None
   \<and> nodes rndLow [mkStation ''HYB'', mkStation ''SC''] = nodes rndHalf [mkStation ''HYB'', mkStation ''SC'']"
  using C9_determinism_up_to_random
    [of "[]" demoNodes "[]" demoItinerary 300000 rndLow rndHalf "[mkStation ''HYB'', mkStation ''SC'']"]
    C9_determinism_up_to_random
    [of "[mkTrain ''T1'' None None]" demoNodes "[demoPosition]" demoItinerary 300000 rndLow rndHalf
        "[mkStation ''HYB'', mkStation ''SC'']"]
  by (simp add: stationPositions_def mkStation_def)

text \<open>
  The claim as stated fails: between HYB and SC, two tracks, the track number is 1 under
  one run of the random source and 2 under the other, and an unknown station moves.
\<close>

theorem C9_random_track_counterexample:
  "map trackNumber (trainDots [] demoNodes [] demoItinerary 300000 rndLow) = [Some 1]
   \<and> map trackNumber (trainDots [] demoNodes [] demoItinerary 300000 rndHalf) = [Some 2]
   \<and> map node_x (nodes rndLow [mkStation ''VSKP'']) = [Some 40]
   \<and> map node_x (nodes rndHalf [mkStation ''VSKP'']) = [Some 500]"
  by (simp add: demo_dots_low(2,3) nodes_def hasGeo_def stationPositions_def mkStation_def
      rndLow_def rndHalf_def padding_def width_def)

end
